theory Spec2Isabelle
  imports Complex_Main
begin

section \<open>Values, errors and dictionary access\<close>

text \<open>
  The scripts are Python run inside a 3D host application.  Python ints are integers,
  Python floats are read as real numbers (rounding is not modelled), strings are
  character lists, and a dict literal is an association list in its written order
  (every key of the tables below occurs once).  A dict whose entries all have the same
  fixed keys of different types is a record.  Every exception the modelled lines can
  raise is a value of \<open>py_error\<close>.
\<close>

datatype py_error = KeyError | ZeroDivisionError | UnboundLocalError

type_synonym vec3 = "real \<times> real \<times> real"

text \<open>\<open>k in d\<close>, \<open>d[k]\<close> and \<open>d.get(k, default)\<close>.\<close>

definition py_in :: "'k \<Rightarrow> ('k \<times> 'v) list \<Rightarrow> bool" where
  "py_in k d = (k \<in> set (map fst d))"

definition subscript :: "('k \<times> 'v) list \<Rightarrow> 'k \<Rightarrow> py_error + 'v" where
  "subscript d k = (case map_of d k of None \<Rightarrow> Inl KeyError | Some v \<Rightarrow> Inr v)"

definition dict_get :: "('k \<times> 'v) list \<Rightarrow> 'k \<Rightarrow> 'v \<Rightarrow> 'v" where
  "dict_get d k dflt = (case map_of d k of None \<Rightarrow> dflt | Some v \<Rightarrow> v)"

text \<open>\<open>str(n)\<close> for the integers that appear in generated names, and \<open>range(count)\<close>.\<close>

fun str_nat :: "nat \<Rightarrow> string" where
  "str_nat n =
     (if n < 10 then [''0123456789'' ! n]
      else str_nat (n div 10) @ [''0123456789'' ! (n mod 10)])"

declare str_nat.simps [simp del]

definition str_int :: "int \<Rightarrow> string" where
  "str_int i = (if i < 0 then CHR ''-'' # str_nat (nat (- i)) else str_nat (nat i))"

definition py_range :: "int \<Rightarrow> int list" where
  "py_range count = map int [0..<nat count]"

text \<open>\<open>math.radians\<close>.\<close>

definition radians :: "real \<Rightarrow> real" where
  "radians x = x * pi / 180"

section \<open>starwars\_fleet.py\<close>

record ship_config =
  ship_name :: string
  ship_description :: string
  ship_colors :: "(string \<times> vec3) list"

definition SHIP_TYPES :: "(string \<times> ship_config) list" where
  "SHIP_TYPES =
    [(''xwing'',
       \<lparr>ship_name = ''X-Wing Fighter'',
        ship_description = ''Rebel Alliance starfighter with S-foils'',
        ship_colors =
          [(''hull'', (0.85, 0.85, 0.8)), (''accent'', (1.0, 0.3, 0.0)),
           (''engine'', (1.0, 0.4, 0.2)), (''cockpit'', (0.1, 0.15, 0.2))]\<rparr>),
     (''tie'',
       \<lparr>ship_name = ''TIE Fighter'',
        ship_description = ''Imperial fighter with twin ion engines'',
        ship_colors =
          [(''hull'', (0.2, 0.2, 0.22)), (''accent'', (0.1, 0.1, 0.1)),
           (''engine'', (0.0, 0.5, 1.0)), (''cockpit'', (0.05, 0.05, 0.08))]\<rparr>),
     (''ywing'',
       \<lparr>ship_name = ''Y-Wing Bomber'',
        ship_description = ''Rebel bomber with exposed machinery'',
        ship_colors =
          [(''hull'', (0.6, 0.55, 0.4)), (''accent'', (0.4, 0.35, 0.25)),
           (''engine'', (0.0, 0.7, 1.0)), (''cockpit'', (0.1, 0.1, 0.15))]\<rparr>),
     (''awing'',
       \<lparr>ship_name = ''A-Wing Interceptor'',
        ship_description = ''Fast rebel interceptor'',
        ship_colors =
          [(''hull'', (0.8, 0.15, 0.1)), (''accent'', (0.9, 0.9, 0.85)),
           (''engine'', (0.0, 0.8, 1.0)), (''cockpit'', (0.1, 0.1, 0.12))]\<rparr>),
     (''falcon'',
       \<lparr>ship_name = ''Light Freighter'',
        ship_description = ''Modified YT-1300 freighter'',
        ship_colors =
          [(''hull'', (0.6, 0.58, 0.55)), (''accent'', (0.4, 0.38, 0.35)),
           (''engine'', (0.0, 0.6, 1.0)), (''cockpit'', (0.15, 0.12, 0.1))]\<rparr>),
     (''shuttle'',
       \<lparr>ship_name = ''Imperial Shuttle'',
        ship_description = ''Lambda-class shuttle with folding wings'',
        ship_colors =
          [(''hull'', (0.85, 0.85, 0.88)), (''accent'', (0.2, 0.2, 0.22)),
           (''engine'', (1.0, 0.3, 0.1)), (''cockpit'', (0.1, 0.1, 0.12))]\<rparr>),
     (''interceptor'',
       \<lparr>ship_name = ''TIE Interceptor'',
        ship_description = ''Advanced Imperial fighter with angled wings'',
        ship_colors =
          [(''hull'', (0.15, 0.15, 0.18)), (''accent'', (0.1, 0.1, 0.1)),
           (''engine'', (0.0, 0.6, 1.0)), (''cockpit'', (0.05, 0.05, 0.08))]\<rparr>),
     (''slave1'',
       \<lparr>ship_name = ''Firespray Gunship'',
        ship_description = ''Bounty hunter patrol craft'',
        ship_colors =
          [(''hull'', (0.3, 0.4, 0.35)), (''accent'', (0.6, 0.1, 0.1)),
           (''engine'', (1.0, 0.5, 0.0)), (''cockpit'', (0.1, 0.15, 0.12))]\<rparr>)]"

text \<open>
  The \<open>builders\<close> dict local to \<open>create_ship\<close>.  A builder emits a fixed list of
  primitives; the model records which builder is called, not its geometry.
\<close>

datatype builder =
  build_xwing | build_tie | build_ywing | build_awing
  | build_falcon | build_shuttle | build_interceptor | build_slave1

definition builders :: "(string \<times> builder) list" where
  "builders =
    [(''xwing'', build_xwing), (''tie'', build_tie), (''ywing'', build_ywing),
     (''awing'', build_awing), (''falcon'', build_falcon), (''shuttle'', build_shuttle),
     (''interceptor'', build_interceptor), (''slave1'', build_slave1)]"

text \<open>
  \<open>create_ship(ship_type, name, scale, position)\<close>.  \<open>rnd\<close> is the value drawn by
  \<open>random.randint(1, 999)\<close> when no name is given.  The result lists the group created,
  the configuration and builder used, and where the group is moved.
\<close>

record ship =
  ship_group :: string
  ship_type_used :: string
  used_config :: ship_config
  built_by :: builder
  ship_scale :: real
  ship_position :: vec3

definition create_ship ::
  "int \<Rightarrow> string \<Rightarrow> string option \<Rightarrow> real \<Rightarrow> vec3 \<Rightarrow> py_error + ship" where
  "create_ship rnd ship_type name scale position =
     (let ship_type = (if \<not> py_in ship_type SHIP_TYPES then ''xwing'' else ship_type) in
      case subscript SHIP_TYPES ship_type of
        Inl e \<Rightarrow> Inl e
      | Inr config \<Rightarrow>
          (let name = (case name of None \<Rightarrow> ship_type @ ''_'' @ str_int rnd | Some n \<Rightarrow> n) in
           case subscript builders ship_type of
             Inl e \<Rightarrow> Inl e
           | Inr b \<Rightarrow>
               Inr \<lparr>ship_group = name @ ''_grp'', ship_type_used = ship_type, used_config = config,
                    built_by = b, ship_scale = scale, ship_position = position\<rparr>))"

text \<open>
  The placement computed in the loop of \<open>create_fleet\<close> for item \<open>i\<close> of \<open>count\<close>.
  \<open>r\<close> holds the three \<open>random.uniform\<close> draws of the last branch.
\<close>

definition fleet_position :: "string \<Rightarrow> int \<Rightarrow> int \<Rightarrow> vec3 \<Rightarrow> vec3" where
  "fleet_position formation i count r =
     (if formation = ''attack'' then
        (let row = i div 2; side = (if i mod 2 = 0 then 1 else - 1) in
         if i = 0 then (0, 0, 0)
         else (real_of_int (- row * 5), 0, real_of_int (side * row * 4)))
      else if formation = ''patrol'' then (real_of_int (i * 6), 0, 0)
      else if formation = ''escort'' then
        (if i = 0 then (0, 0, 0)
         else
           (let angle = (if count > 1
                         then (real_of_int (i - 1) / real_of_int (count - 1)) * 360 else 0);
                radius = 8
            in (radius * cos (radians angle), 0, radius * sin (radians angle))))
      else r)"

definition faction_ships :: "(string \<times> string list) list" where
  "faction_ships =
    [(''rebel'', [''xwing'', ''xwing'', ''ywing'', ''awing'', ''falcon'']),
     (''imperial'', [''tie'', ''tie'', ''tie'', ''interceptor'', ''shuttle'']),
     (''mixed'', [''xwing'', ''tie'', ''falcon'', ''shuttle'', ''awing'', ''interceptor'']),
     (''bounty_hunter'', [''slave1'', ''ywing'', ''falcon''])]"

text \<open>
  \<open>create_fleet(faction, count, formation)\<close>: the ships in the order they are built.
  \<open>rnd i\<close> and \<open>r i\<close> are the random draws of iteration \<open>i\<close>.  The first exception
  ends the loop.
\<close>

fun fleet_loop ::
  "(int \<Rightarrow> int) \<Rightarrow> (int \<Rightarrow> vec3) \<Rightarrow> string list \<Rightarrow> int \<Rightarrow> string \<Rightarrow> int list
     \<Rightarrow> py_error + ship list" where
  "fleet_loop rnd r ships_list count formation [] = Inr []"
| "fleet_loop rnd r ships_list count formation (i # is) =
     (if ships_list = [] then Inl ZeroDivisionError
      else
        (let ship_type = ships_list ! nat (i mod int (length ships_list)) in
         case create_ship (rnd i) ship_type None 1.0 (fleet_position formation i count (r i)) of
           Inl e \<Rightarrow> Inl e
         | Inr ship \<Rightarrow>
             (case fleet_loop rnd r ships_list count formation is of
                Inl e \<Rightarrow> Inl e
              | Inr ships \<Rightarrow> Inr (ship # ships))))"

definition create_fleet ::
  "(int \<Rightarrow> int) \<Rightarrow> (int \<Rightarrow> vec3) \<Rightarrow> string \<Rightarrow> int \<Rightarrow> string \<Rightarrow> py_error + ship list" where
  "create_fleet rnd r faction count formation =
     (case subscript faction_ships ''mixed'' of
        Inl e \<Rightarrow> Inl e
      | Inr mixed \<Rightarrow>
          fleet_loop rnd r (dict_get faction_ships faction mixed) count formation
            (py_range count))"

section \<open>starship\_v2.py\<close>

definition SHIP_THEMES :: "(string \<times> (string \<times> vec3) list) list" where
  "SHIP_THEMES =
    [(''federation'',
       [(''hull_primary'', (0.85, 0.85, 0.9)),
        (''hull_secondary'', (0.6, 0.6, 0.65)),
        (''accent'', (0.2, 0.4, 0.8)),
        (''engine_glow'', (0.0, 0.7, 1.0)),
        (''cockpit'', (0.1, 0.15, 0.2)),
        (''weapons'', (1.0, 0.3, 0.1)),
        (''lights'', (1.0, 1.0, 0.8))]),
     (''empire'',
       [(''hull_primary'', (0.2, 0.2, 0.22)),
        (''hull_secondary'', (0.1, 0.1, 0.12)),
        (''accent'', (0.8, 0.0, 0.0)),
        (''engine_glow'', (0.0, 0.5, 1.0)),
        (''cockpit'', (0.05, 0.05, 0.08)),
        (''weapons'', (0.0, 1.0, 0.3)),
        (''lights'', (1.0, 0.0, 0.0))]),
     (''bounty_hunter'',
       [(''hull_primary'', (0.4, 0.35, 0.25)),
        (''hull_secondary'', (0.3, 0.25, 0.15)),
        (''accent'', (0.6, 0.5, 0.1)),
        (''engine_glow'', (1.0, 0.5, 0.0)),
        (''cockpit'', (0.15, 0.12, 0.08)),
        (''weapons'', (1.0, 0.2, 0.0)),
        (''lights'', (1.0, 0.8, 0.4))]),
     (''alien'',
       [(''hull_primary'', (0.1, 0.3, 0.2)),
        (''hull_secondary'', (0.15, 0.4, 0.25)),
        (''accent'', (0.5, 0.0, 0.7)),
        (''engine_glow'', (0.0, 1.0, 0.5)),
        (''cockpit'', (0.2, 0.1, 0.3)),
        (''weapons'', (0.8, 0.0, 1.0)),
        (''lights'', (0.0, 1.0, 0.8))]),
     (''stealth'',
       [(''hull_primary'', (0.05, 0.05, 0.08)),
        (''hull_secondary'', (0.08, 0.08, 0.1)),
        (''accent'', (0.1, 0.1, 0.15)),
        (''engine_glow'', (0.3, 0.0, 0.5)),
        (''cockpit'', (0.02, 0.02, 0.05)),
        (''weapons'', (0.5, 0.0, 0.0)),
        (''lights'', (0.2, 0.0, 0.3))]),
     (''racer'',
       [(''hull_primary'', (1.0, 0.2, 0.0)),
        (''hull_secondary'', (1.0, 1.0, 1.0)),
        (''accent'', (0.0, 0.0, 0.0)),
        (''engine_glow'', (0.0, 0.8, 1.0)),
        (''cockpit'', (0.1, 0.1, 0.1)),
        (''weapons'', (1.0, 1.0, 0.0)),
        (''lights'', (1.0, 1.0, 1.0))])]"

definition SHIP_CLASSES :: "(string \<times> string) list" where
  "SHIP_CLASSES =
    [(''interceptor'', ''Fast, agile fighter with forward-swept wings''),
     (''heavy_fighter'', ''Balanced combat ship with thick armor''),
     (''bomber'', ''Heavy ship designed for big payloads''),
     (''corvette'', ''Small capital ship with multiple decks''),
     (''racer'', ''Ultra-fast ship built for speed''),
     (''transport'', ''Cargo hauler with large hold''),
     (''gunship'', ''Heavily armed assault craft'')]"

text \<open>A keyframe set with \<open>cmds.setKeyframe(node, attribute=a, value=v, time=t)\<close>.\<close>

type_synonym keyframe = "string \<times> string \<times> real \<times> real"

definition add_flight_animation :: "string \<Rightarrow> string \<Rightarrow> keyframe list" where
  "add_flight_animation grp style =
     (if style = ''hover'' then
        [(grp, ''translateY'', 0, 1), (grp, ''translateY'', 0.2, 30),
         (grp, ''translateY'', 0, 60), (grp, ''translateY'', - 0.1, 90),
         (grp, ''translateY'', 0, 120),
         (grp, ''rotateZ'', 0, 1), (grp, ''rotateZ'', 2, 40),
         (grp, ''rotateZ'', - 2, 80), (grp, ''rotateZ'', 0, 120)]
      else if style = ''flyby'' then
        [(grp, ''translateX'', - 20, 1), (grp, ''translateX'', 20, 120),
         (grp, ''rotateY'', 90, 1), (grp, ''rotateY'', 90, 120)]
      else if style = ''banking'' then
        [(grp, ''rotateY'', 0, 1), (grp, ''rotateY'', 90, 60),
         (grp, ''rotateY'', 180, 120),
         (grp, ''rotateZ'', 0, 1), (grp, ''rotateZ'', - 30, 30),
         (grp, ''rotateZ'', 0, 60), (grp, ''rotateZ'', - 30, 90),
         (grp, ''rotateZ'', 0, 120)]
      else [])"

text \<open>
  \<open>create_starship\<close>.  The three class builders of this script (written here with the
  prefix \<open>v2_\<close>, apart from the builders of starwars\_fleet.py) read
  \<open>SHIP_THEMES[theme]\<close> first; the model records the builder called and the colours it
  read.  When no branch of the class chain is taken, \<open>parts\<close> is unbound at its use.
\<close>

datatype class_builder = v2_build_interceptor | v2_build_heavy_fighter | v2_build_racer

record starship =
  starship_group :: string
  class_used :: string
  theme_used :: string
  theme_colors :: "(string \<times> vec3) list"
  class_built_by :: class_builder
  starship_scale :: real
  flight_keys :: "keyframe list"

definition create_starship ::
  "string \<Rightarrow> string \<Rightarrow> string \<Rightarrow> real \<Rightarrow> bool \<Rightarrow> string \<Rightarrow> py_error + starship" where
  "create_starship name ship_class theme scale add_animation animation_style =
     (let theme = (if \<not> py_in theme SHIP_THEMES then ''federation'' else theme);
          ship_class =
            (if ship_class \<notin> set [''interceptor'', ''heavy_fighter'', ''racer'']
             then ''interceptor'' else ship_class);
          ship_group = name @ ''_grp'';
          chosen =
            (if ship_class = ''interceptor'' then Some v2_build_interceptor
             else if ship_class = ''heavy_fighter'' then Some v2_build_heavy_fighter
             else if ship_class = ''racer'' then Some v2_build_racer
             else None)
      in case chosen of
           None \<Rightarrow> Inl UnboundLocalError
         | Some b \<Rightarrow>
             (case subscript SHIP_THEMES theme of
                Inl e \<Rightarrow> Inl e
              | Inr cs \<Rightarrow>
                  Inr \<lparr>starship_group = ship_group, class_used = ship_class,
                       theme_used = theme, theme_colors = cs, class_built_by = b,
                       starship_scale = scale,
                       flight_keys =
                         (if add_animation then add_flight_animation ship_group animation_style
                          else [])\<rparr>))"

text \<open>
  The transforms applied to ship \<open>i\<close> in the loop of \<open>create_squadron\<close>, where
  \<open>count\<close> is the loop's bound (the clamped count): the arguments of \<open>cmds.move\<close> and
  of \<open>cmds.rotate\<close>, if called.
\<close>

definition squadron_transform ::
  "string \<Rightarrow> int \<Rightarrow> int \<Rightarrow> py_error + (vec3 option \<times> vec3 option)" where
  "squadron_transform formation i count =
     (if formation = ''v'' then
        (let row = i div 2; side = (if i mod 2 = 0 then 1 else - 1) in
         if i = 0 then Inr (Some (0, 0, 0), None)
         else Inr (Some (real_of_int (side * row * 3), 0, real_of_int (- row * 4)), None))
      else if formation = ''line'' then Inr (Some (real_of_int (i * 4), 0, 0), None)
      else if formation = ''diamond'' then
        (if count = 0 then Inl ZeroDivisionError
         else
           (let angle = (real_of_int i / real_of_int count) * 360;
                radius = 5;
                x = radius * cos (radians angle);
                z = radius * sin (radians angle)
            in Inr (Some (x, 0, z), Some (0, - angle + 90, 0))))
      else if formation = ''echelon'' then
        Inr (Some (real_of_int (i * 3), 0, real_of_int (- i * 2)), None)
      else Inr (None, None))"

record squadron_ship =
  built :: starship
  moved_to :: "vec3 option"
  rotated_to :: "vec3 option"

fun squadron_loop ::
  "int \<Rightarrow> string \<Rightarrow> string \<Rightarrow> string \<Rightarrow> int list \<Rightarrow> py_error + squadron_ship list" where
  "squadron_loop count ship_class theme formation [] = Inr []"
| "squadron_loop count ship_class theme formation (i # is) =
     (case create_starship (''squad_'' @ str_int (i + 1)) ship_class theme 0.8 True ''hover'' of
        Inl e \<Rightarrow> Inl e
      | Inr ship \<Rightarrow>
          (case squadron_transform formation i count of
             Inl e \<Rightarrow> Inl e
           | Inr (m, r) \<Rightarrow>
               (case squadron_loop count ship_class theme formation is of
                  Inl e \<Rightarrow> Inl e
                | Inr ships \<Rightarrow> Inr (\<lparr>built = ship, moved_to = m, rotated_to = r\<rparr> # ships))))"

text \<open>\<open>create_squadron\<close>: the ships appended to \<open>ships\<close> and then grouped.\<close>

definition create_squadron ::
  "int \<Rightarrow> string \<Rightarrow> string \<Rightarrow> string \<Rightarrow> py_error + squadron_ship list" where
  "create_squadron count ship_class theme formation =
     (let count = min count 12 in
      squadron_loop count ship_class theme formation (py_range count))"

section \<open>minecraft\_characters.py\<close>

record character_config =
  char_name :: string
  char_description :: string
  skin :: vec3
  shirt :: vec3
  pants :: vec3
  hair :: vec3
  eyes :: vec3
  shoes :: vec3
  special :: "string option"

definition CHARACTERS :: "(string \<times> character_config) list" where
  "CHARACTERS =
    [(''steve'',
       \<lparr>char_name = ''Steve'', char_description = ''The classic Minecraft player'',
        skin = (0.72, 0.53, 0.4), shirt = (0.0, 0.65, 0.65), pants = (0.2, 0.2, 0.6),
        hair = (0.25, 0.15, 0.1), eyes = (0.3, 0.2, 0.5), shoes = (0.3, 0.3, 0.3),
        special = None\<rparr>),
     (''alex'',
       \<lparr>char_name = ''Alex'', char_description = ''The alternate player character'',
        skin = (0.78, 0.58, 0.45), shirt = (0.3, 0.55, 0.2), pants = (0.4, 0.3, 0.2),
        hair = (0.85, 0.45, 0.15), eyes = (0.2, 0.5, 0.2), shoes = (0.35, 0.25, 0.15),
        special = None\<rparr>),
     (''zombie'',
       \<lparr>char_name = ''Zombie'', char_description = ''Undead mob that spawns at night'',
        skin = (0.3, 0.5, 0.35), shirt = (0.0, 0.45, 0.45), pants = (0.15, 0.15, 0.4),
        hair = (0.2, 0.25, 0.2), eyes = (0.1, 0.1, 0.1), shoes = (0.25, 0.25, 0.25),
        special = None\<rparr>),
     (''creeper'',
       \<lparr>char_name = ''Creeper'', char_description = ''Explosive green mob - SSSSSS!'',
        skin = (0.3, 0.65, 0.3), shirt = (0.25, 0.55, 0.25), pants = (0.2, 0.45, 0.2),
        hair = (0.3, 0.65, 0.3), eyes = (0.0, 0.0, 0.0), shoes = (0.2, 0.45, 0.2),
        special = Some ''creeper_face''\<rparr>),
     (''skeleton'',
       \<lparr>char_name = ''Skeleton'', char_description = ''Bow-wielding undead archer'',
        skin = (0.85, 0.85, 0.8), shirt = (0.8, 0.8, 0.75), pants = (0.75, 0.75, 0.7),
        hair = (0.85, 0.85, 0.8), eyes = (0.1, 0.1, 0.1), shoes = (0.7, 0.7, 0.65),
        special = None\<rparr>),
     (''enderman'',
       \<lparr>char_name = ''Enderman'', char_description = ''Tall mysterious mob from The End'',
        skin = (0.1, 0.1, 0.12), shirt = (0.08, 0.08, 0.1), pants = (0.06, 0.06, 0.08),
        hair = (0.1, 0.1, 0.12), eyes = (0.8, 0.2, 0.8), shoes = (0.05, 0.05, 0.06),
        special = Some ''tall''\<rparr>),
     (''villager'',
       \<lparr>char_name = ''Villager'', char_description = ''Friendly NPC trader'',
        skin = (0.72, 0.55, 0.42), shirt = (0.5, 0.35, 0.2), pants = (0.45, 0.3, 0.15),
        hair = (0.4, 0.25, 0.15), eyes = (0.2, 0.4, 0.2), shoes = (0.3, 0.2, 0.1),
        special = Some ''big_nose''\<rparr>),
     (''pigman'',
       \<lparr>char_name = ''Zombie Piglin'', char_description = ''Undead Nether mob'',
        skin = (0.75, 0.55, 0.5), shirt = (0.5, 0.35, 0.25), pants = (0.4, 0.3, 0.2),
        hair = (0.3, 0.2, 0.15), eyes = (0.8, 0.1, 0.1), shoes = (0.35, 0.25, 0.15),
        special = Some ''pig_snout''\<rparr>),
     (''witch'',
       \<lparr>char_name = ''Witch'', char_description = ''Potion-throwing hostile mob'',
        skin = (0.6, 0.55, 0.5), shirt = (0.25, 0.1, 0.3), pants = (0.2, 0.08, 0.25),
        hair = (0.3, 0.3, 0.3), eyes = (0.5, 0.1, 0.5), shoes = (0.15, 0.05, 0.2),
        special = Some ''witch_hat''\<rparr>),
     (''iron_golem'',
       \<lparr>char_name = ''Iron Golem'', char_description = ''Powerful village protector'',
        skin = (0.7, 0.7, 0.68), shirt = (0.65, 0.65, 0.62), pants = (0.6, 0.6, 0.58),
        hair = (0.7, 0.7, 0.68), eyes = (0.4, 0.15, 0.15), shoes = (0.55, 0.55, 0.52),
        special = Some ''large''\<rparr>)]"

definition ARMOR_TYPES :: "(string \<times> vec3) list" where
  "ARMOR_TYPES =
    [(''leather'', (0.55, 0.35, 0.2)),
     (''chainmail'', (0.6, 0.6, 0.65)),
     (''iron'', (0.75, 0.75, 0.72)),
     (''gold'', (0.9, 0.75, 0.2)),
     (''diamond'', (0.3, 0.85, 0.85)),
     (''netherite'', (0.25, 0.22, 0.25))]"

subsection \<open>The host scene\<close>

text \<open>
  The host application keeps one global scene.  The model keeps the names of its nodes
  and the commands issued so far.  A command that creates a node asks for a name; which
  name the node gets is the host's decision, so it is a parameter \<open>host\<close> of every
  function that creates nodes: \<open>host existing requested\<close> is the name given.
\<close>

type_synonym namer = "string list \<Rightarrow> string \<Rightarrow> string"

datatype cmd =
  ShadingNode string string
  | Sets string
  | ConnectAttr string string
  | SetAttr string "real list"
  | PolyCube real real real string
  | Move real real real "string list"
  | Rotate real real real "string list"
  | ForceElement string string

record scene =
  nodes :: "string list"
  issued :: "cmd list"

definition objExists :: "scene \<Rightarrow> string \<Rightarrow> bool" where
  "objExists s n = (n \<in> set (nodes s))"

definition emit :: "cmd \<Rightarrow> scene \<Rightarrow> scene" where
  "emit c s = s\<lparr>issued := issued s @ [c]\<rparr>"

definition create_node :: "namer \<Rightarrow> (string \<Rightarrow> cmd) \<Rightarrow> string \<Rightarrow> scene \<Rightarrow> string \<times> scene" where
  "create_node host c requested s =
     (let n = host (nodes s) requested
      in (n, s\<lparr>nodes := n # nodes s, issued := issued s @ [c n]\<rparr>))"

subsection \<open>Materials\<close>

definition create_material ::
  "namer \<Rightarrow> string \<Rightarrow> vec3 \<Rightarrow> real \<Rightarrow> scene \<Rightarrow> string \<times> scene" where
  "create_material host name color emission s =
     (if objExists s (name @ ''_mat'') then (name @ ''_SG'', s)
      else
        (let (shader, s) = create_node host (ShadingNode ''lambert'') (name @ ''_mat'') s;
             (sg, s) = create_node host Sets (name @ ''_SG'') s;
             s = emit (ConnectAttr (shader @ ''.outColor'') (sg @ ''.surfaceShader'')) s;
             s = emit (SetAttr (shader @ ''.color'')
                         [fst color, fst (snd color), snd (snd color)]) s;
             s = (if emission > 0
                  then emit (SetAttr (shader @ ''.incandescence'')
                               [fst color * emission, fst (snd color) * emission,
                                snd (snd color) * emission]) s
                  else s)
         in (sg, s)))"

definition apply_material :: "string \<Rightarrow> string \<Rightarrow> scene \<Rightarrow> scene" where
  "apply_material obj shading_group s = emit (ForceElement obj shading_group) s"

subsection \<open>Arms and legs\<close>

text \<open>The body of the loop \<open>for side in [-1, 1]\<close> of \<open>create_arms\<close>, then the function.\<close>

definition arm_side ::
  "namer \<Rightarrow> string \<Rightarrow> real \<Rightarrow> real \<Rightarrow> string \<Rightarrow> string \<Rightarrow> string \<Rightarrow> int \<Rightarrow> scene
     \<Rightarrow> string list \<times> scene" where
  "arm_side host name scale y_offset arm_pose arm_mat shirt_mat side s =
     (let (upper_arm, s) =
            create_node host (PolyCube (0.35 * scale) (0.5 * scale) (0.35 * scale))
              (name @ ''_upper_arm_'' @ str_int side) s;
          s = emit (Move (real_of_int side * 0.575 * scale) ((0.95 + y_offset) * scale) 0
                      [upper_arm]) s;
          s = apply_material upper_arm shirt_mat s;
          (lower_arm, s) =
            create_node host (PolyCube (0.35 * scale) (0.5 * scale) (0.35 * scale))
              (name @ ''_lower_arm_'' @ str_int side) s;
          s = emit (Move (real_of_int side * 0.575 * scale) ((0.45 + y_offset) * scale) 0
                      [lower_arm]) s;
          s = apply_material lower_arm arm_mat s;
          s = (if arm_pose = ''wave'' \<and> side = 1 then
                 emit (Move (real_of_int side * 0.9 * scale) ((1.5 + y_offset) * scale) 0
                         [lower_arm])
                   (emit (Move (real_of_int side * 0.7 * scale) ((1.1 + y_offset) * scale) 0
                            [upper_arm])
                      (emit (Rotate 0 0 (- 45) [upper_arm, lower_arm]) s))
               else if arm_pose = ''zombie'' then
                 emit (Move (real_of_int side * 0.3 * scale) ((0.95 + y_offset) * scale)
                         (1.1 * scale) [lower_arm])
                   (emit (Move (real_of_int side * 0.3 * scale) ((0.95 + y_offset) * scale)
                            (0.6 * scale) [upper_arm])
                      (emit (Rotate 0 0 (real_of_int (- side * 80)) [upper_arm, lower_arm]) s))
               else s)
      in ([upper_arm, lower_arm], s))"

definition create_arms ::
  "namer \<Rightarrow> string \<Rightarrow> character_config \<Rightarrow> real \<Rightarrow> real \<Rightarrow> string \<Rightarrow> scene
     \<Rightarrow> string list \<times> scene" where
  "create_arms host name cfg scale y_offset arm_pose s =
     (let (arm_mat, s) = create_material host (name @ ''_skin'') (skin cfg) 0.0 s;
          (shirt_mat, s) = create_material host (name @ ''_shirt'') (shirt cfg) 0.0 s;
          (left, s) = arm_side host name scale y_offset arm_pose arm_mat shirt_mat (- 1) s;
          (right, s) = arm_side host name scale y_offset arm_pose arm_mat shirt_mat 1 s
      in (left @ right, s))"

definition leg_side ::
  "namer \<Rightarrow> string \<Rightarrow> real \<Rightarrow> string \<Rightarrow> string \<Rightarrow> string \<Rightarrow> int \<Rightarrow> scene
     \<Rightarrow> string list \<times> scene" where
  "leg_side host name scale leg_pose pants_mat shoes_mat side s =
     (let (upper_leg, s) =
            create_node host (PolyCube (0.35 * scale) (0.5 * scale) (0.35 * scale))
              (name @ ''_upper_leg_'' @ str_int side) s;
          s = apply_material upper_leg pants_mat s;
          (lower_leg, s) =
            create_node host (PolyCube (0.35 * scale) (0.4 * scale) (0.35 * scale))
              (name @ ''_lower_leg_'' @ str_int side) s;
          s = apply_material lower_leg pants_mat s;
          (shoe, s) =
            create_node host (PolyCube (0.38 * scale) (0.12 * scale) (0.42 * scale))
              (name @ ''_shoe_'' @ str_int side) s;
          s = apply_material shoe shoes_mat s;
          s = (if leg_pose = ''walking'' then
                 (let angle = 25 * side in
                  emit (Rotate (real_of_int angle) 0 0 [upper_leg, lower_leg, shoe])
                    (emit (Move (real_of_int side * 0.2 * scale) (- 0.85 * scale)
                             (real_of_int side * 0.3 * scale) [shoe])
                       (emit (Move (real_of_int side * 0.2 * scale) (- 0.5 * scale)
                                (real_of_int side * 0.25 * scale) [lower_leg])
                          (emit (Move (real_of_int side * 0.2 * scale) (- 0.05 * scale)
                                   (real_of_int side * 0.15 * scale) [upper_leg]) s))))
               else
                 emit (Move (real_of_int side * 0.2 * scale) (- 0.85 * scale) (0.02 * scale)
                         [shoe])
                   (emit (Move (real_of_int side * 0.2 * scale) (- 0.5 * scale) 0 [lower_leg])
                      (emit (Move (real_of_int side * 0.2 * scale) (- 0.05 * scale) 0
                               [upper_leg]) s)))
      in ([upper_leg, lower_leg, shoe], s))"

definition create_legs ::
  "namer \<Rightarrow> string \<Rightarrow> character_config \<Rightarrow> real \<Rightarrow> real \<Rightarrow> string \<Rightarrow> scene
     \<Rightarrow> string list \<times> scene" where
  "create_legs host name cfg scale y_offset leg_pose s =
     (let (pants_mat, s) = create_material host (name @ ''_pants'') (pants cfg) 0.0 s;
          (shoes_mat, s) = create_material host (name @ ''_shoes'') (shoes cfg) 0.0 s;
          (left, s) = leg_side host name scale leg_pose pants_mat shoes_mat (- 1) s;
          (right, s) = leg_side host name scale leg_pose pants_mat shoes_mat 1 s
      in (left @ right, s))"

text \<open>The rotate commands issued so far: what a pose adds to the arms and legs.\<close>

definition rotations :: "scene \<Rightarrow> cmd list" where
  "rotations s = filter (\<lambda>c. case c of Rotate x y z objs \<Rightarrow> True | _ \<Rightarrow> False) (issued s)"

subsection \<open>Characters and hordes\<close>

text \<open>
  \<open>create_character\<close>, up to the calls of the part builders: the result lists the
  configuration used and the arguments with which the head, body, arm, leg, feature,
  item and armour builders are called.  \<open>rnd\<close> is the draw of
  \<open>random.randint(100, 999)\<close> used when no name is given.
\<close>

datatype feature = add_creeper_face | add_villager_nose | add_pig_snout | add_witch_hat

record character =
  c_group :: string
  c_type :: string
  c_config :: character_config
  c_scale :: real
  c_y_offset :: real
  c_arm_pose :: string
  c_leg_pose :: string
  c_feature :: "feature option"
  c_held_item :: "string option"
  c_armor :: "vec3 option"
  c_position :: vec3

definition create_character ::
  "int \<Rightarrow> string \<Rightarrow> string option \<Rightarrow> real \<Rightarrow> vec3 \<Rightarrow> string \<Rightarrow> string option \<Rightarrow> string option
     \<Rightarrow> py_error + character" where
  "create_character rnd char_type name scale position pose held_item armor =
     (let char_type = (if \<not> py_in char_type CHARACTERS then ''steve'' else char_type) in
      case subscript CHARACTERS char_type of
        Inl e \<Rightarrow> Inl e
      | Inr cfg \<Rightarrow>
          (let name = (case name of None \<Rightarrow> char_type @ ''_'' @ str_int rnd | Some n \<Rightarrow> n);
               (char_scale, y_offset) =
                 (if special cfg = Some ''tall'' then (scale * 1.5, 0.5)
                  else if special cfg = Some ''large'' then (scale * 1.8, 0.8)
                  else (scale, 0));
               arm_pose = (if pose \<in> set [''wave'', ''zombie''] then pose else ''down'');
               leg_pose = (if pose = ''walking'' then ''walking'' else ''standing'');
               feat =
                 (if special cfg = Some ''creeper_face'' then Some add_creeper_face
                  else if special cfg = Some ''big_nose'' then Some add_villager_nose
                  else if special cfg = Some ''pig_snout'' then Some add_pig_snout
                  else if special cfg = Some ''witch_hat'' then Some add_witch_hat
                  else None);
               item = (case held_item of None \<Rightarrow> None
                       | Some h \<Rightarrow> if h = [] then None else Some h);
               armor_color =
                 (case armor of None \<Rightarrow> None
                  | Some a \<Rightarrow> if a \<noteq> [] \<and> py_in a ARMOR_TYPES then map_of ARMOR_TYPES a
                              else None)
           in Inr \<lparr>c_group = name @ ''_grp'', c_type = char_type, c_config = cfg,
                   c_scale = char_scale, c_y_offset = y_offset, c_arm_pose = arm_pose,
                   c_leg_pose = leg_pose, c_feature = feat, c_held_item = item,
                   c_armor = armor_color, c_position = position\<rparr>))"

text \<open>
  The placement computed in the loop of \<open>create_mob_horde\<close>: the \<open>(x, z)\<close> passed on
  as \<open>position=(x, 0, z)\<close>, and the argument of the \<open>cmds.rotate\<close> of the ambush.
  \<open>r\<close> holds the two \<open>random.uniform\<close> draws of the swarm.
\<close>

definition horde_position ::
  "string \<Rightarrow> int \<Rightarrow> int \<Rightarrow> real \<times> real \<Rightarrow> py_error + (vec3 \<times> vec3 option)" where
  "horde_position formation i count r =
     (if formation = ''line'' then Inr ((real_of_int (i * 2), 0, 0), None)
      else if formation = ''ambush'' then
        (if count = 0 then Inl ZeroDivisionError
         else
           (let angle = (real_of_int i / real_of_int count) * 180 - 90;
                x = 8 * cos (radians angle);
                z = 8 * sin (radians angle)
            in Inr ((x, 0, z), Some (0, - angle, 0))))
      else Inr ((fst r, 0, snd r), None))"

record horde_mob =
  mob :: character
  mob_rotated :: "vec3 option"

fun horde_loop ::
  "(int \<Rightarrow> int) \<Rightarrow> (int \<Rightarrow> real \<times> real) \<Rightarrow> string \<Rightarrow> int \<Rightarrow> string \<Rightarrow> int list
     \<Rightarrow> py_error + horde_mob list" where
  "horde_loop rnd r mob_type count formation [] = Inr []"
| "horde_loop rnd r mob_type count formation (i # is) =
     (case horde_position formation i count (r i) of
        Inl e \<Rightarrow> Inl e
      | Inr (p, rot) \<Rightarrow>
          (let pose = (if mob_type = ''zombie'' then ''zombie'' else ''walking'');
               item = (if mob_type = ''skeleton'' then Some ''bow'' else None)
           in case create_character (rnd i) mob_type None 1.0 p pose item None of
                Inl e \<Rightarrow> Inl e
              | Inr m \<Rightarrow>
                  (case horde_loop rnd r mob_type count formation is of
                     Inl e \<Rightarrow> Inl e
                   | Inr mobs \<Rightarrow> Inr (\<lparr>mob = m, mob_rotated = rot\<rparr> # mobs))))"

definition create_mob_horde ::
  "(int \<Rightarrow> int) \<Rightarrow> (int \<Rightarrow> real \<times> real) \<Rightarrow> string \<Rightarrow> int \<Rightarrow> string
     \<Rightarrow> py_error + horde_mob list" where
  "create_mob_horde rnd r mob_type count formation =
     horde_loop rnd r mob_type count formation (py_range count)"

section \<open>fancy\_3d\_text.py\<close>

definition COLOR_PRESETS :: "(string \<times> vec3 list) list" where
  "COLOR_PRESETS =
    [(''rainbow'',
       [(1.0, 0.2, 0.2),
        (1.0, 0.5, 0.0),
        (1.0, 1.0, 0.0),
        (0.0, 1.0, 0.3),
        (0.0, 0.8, 1.0),
        (0.3, 0.3, 1.0),
        (0.8, 0.2, 1.0)]),
     (''fire'',
       [(1.0, 0.9, 0.0),
        (1.0, 0.6, 0.0),
        (1.0, 0.2, 0.0),
        (0.8, 0.0, 0.0)]),
     (''ice'',
       [(0.9, 1.0, 1.0),
        (0.6, 0.9, 1.0),
        (0.2, 0.6, 1.0),
        (0.1, 0.3, 0.8)]),
     (''neon'',
       [(1.0, 0.0, 0.5),
        (0.0, 1.0, 1.0),
        (0.5, 0.0, 1.0),
        (0.0, 1.0, 0.5)]),
     (''gold'',
       [(1.0, 0.95, 0.6),
        (1.0, 0.84, 0.0),
        (0.85, 0.65, 0.13),
        (0.72, 0.53, 0.04)]),
     (''sunset'',
       [(1.0, 0.4, 0.4),
        (1.0, 0.6, 0.2),
        (1.0, 0.8, 0.4),
        (0.8, 0.4, 0.6),
        (0.5, 0.3, 0.7)])]"

text \<open>
  The line \<open>colors = COLOR_PRESETS.get(color_preset, COLOR_PRESETS["rainbow"])\<close>; the
  default is evaluated before the lookup.
\<close>

definition preset_colors :: "string \<Rightarrow> py_error + vec3 list" where
  "preset_colors color_preset =
     (case subscript COLOR_PRESETS ''rainbow'' of
        Inl e \<Rightarrow> Inl e
      | Inr rainbow \<Rightarrow> Inr (dict_get COLOR_PRESETS color_preset rainbow))"

text \<open>
  What the host does for one character of the text.  \<open>cmds.textCurves\<close> either raises
  or returns curves; for each curve transform the block that builds a planar surface,
  converts and extrudes it either yields a mesh, yields nothing (no surface), or raises.
  These outcomes are parameters of the model: \<open>textCurves i char\<close> for the character
  at index \<open>i\<close>.  \<open>arnold\<close> says whether the first shader type can be created.
\<close>

datatype curve_outcome = Extruded | NoSurface | ExtrudeRaises

datatype text_curves = Raises | Curves "curve_outcome list"

datatype warning = CouldNotCreateLetter char | CouldNotExtrudeCurve

record letter =
  letter_mesh :: string
  letter_grp :: string
  letter_color :: vec3
  letter_glow :: real
  letter_shader :: string

text \<open>
  The two lines that choose the material colour of the letter at index \<open>i\<close>:
  \<open>color_index = i % len(colors)\<close> and
  \<open>color = colors[color_index] if per_letter_colors else colors[0]\<close>.
\<close>

definition material_color :: "vec3 list \<Rightarrow> bool \<Rightarrow> nat \<Rightarrow> py_error + vec3" where
  "material_color cs per_letter_colors i =
     (if cs = [] then Inl ZeroDivisionError
      else
        (let color_index = i mod length cs
         in Inr (if per_letter_colors then cs ! color_index else cs ! 0)))"

text \<open>One iteration of the loop \<open>for i, char in enumerate(text)\<close>.\<close>

definition letter_step ::
  "(nat \<Rightarrow> char \<Rightarrow> text_curves) \<Rightarrow> bool \<Rightarrow> vec3 list \<Rightarrow> bool \<Rightarrow> bool \<Rightarrow> real \<Rightarrow> nat \<times> char
     \<Rightarrow> py_error + (letter list \<times> warning list)" where
  "letter_step textCurves arnold cs per_letter_colors add_glow glow_intensity p =
     (let i = fst p; char = snd p in
      if char = CHR '' '' then Inr ([], [])
      else
        (case textCurves i char of
           Raises \<Rightarrow> Inr ([], [CouldNotCreateLetter char])
         | Curves all_curves \<Rightarrow>
             if all_curves = [] then Inr ([], [])
             else
               (let extruded_meshes = filter (\<lambda>c. c = Extruded) all_curves;
                    ws = map (\<lambda>c. CouldNotExtrudeCurve)
                           (filter (\<lambda>c. c = ExtrudeRaises) all_curves)
                in if extruded_meshes = [] then Inr ([], ws)
                   else
                     (case material_color cs per_letter_colors i of
                        Inl e \<Rightarrow> Inl e
                      | Inr color \<Rightarrow>
                          Inr ([\<lparr>letter_mesh = ''letter_'' @ [char] @ ''_'' @ str_nat i @ ''_mesh'',
                                 letter_grp = ''letter_'' @ [char] @ ''_'' @ str_nat i @ ''_grp'',
                                 letter_color = color,
                                 letter_glow = (if add_glow then glow_intensity else 0),
                                 letter_shader =
                                   (if arnold then ''aiStandardSurface'' else ''blinn'')\<rparr>],
                               ws)))))"

fun letters_loop ::
  "(nat \<Rightarrow> char \<Rightarrow> text_curves) \<Rightarrow> bool \<Rightarrow> vec3 list \<Rightarrow> bool \<Rightarrow> bool \<Rightarrow> real
     \<Rightarrow> (nat \<times> char) list \<Rightarrow> py_error + (letter list \<times> warning list)" where
  "letters_loop textCurves arnold cs per_letter_colors add_glow glow_intensity [] = Inr ([], [])"
| "letters_loop textCurves arnold cs per_letter_colors add_glow glow_intensity (p # ps) =
     (case letter_step textCurves arnold cs per_letter_colors add_glow glow_intensity p of
        Inl e \<Rightarrow> Inl e
      | Inr (ls, ws) \<Rightarrow>
          (case letters_loop textCurves arnold cs per_letter_colors add_glow glow_intensity ps of
             Inl e \<Rightarrow> Inl e
           | Inr (ls', ws') \<Rightarrow> Inr (ls @ ls', ws @ ws')))"

text \<open>
  The keyframes set for the \<open>i\<close>-th letter group by the animation block of
  \<open>create_3d_text\<close>.
\<close>

definition letter_animation :: "string \<Rightarrow> real \<Rightarrow> nat \<Rightarrow> string \<Rightarrow> keyframe list" where
  "letter_animation animation_type scale i grp =
     (let offset = real (i * 5) in
      if animation_type = ''wave'' then
        map (\<lambda>k. let frame = real (1 + 10 * k)
                 in (grp, ''translateY'', sin ((frame + offset) * 0.15) * 0.5 * scale, frame))
          [0..<12]
      else if animation_type = ''bounce'' then
        [(grp, ''translateY'', 0, 1 + offset), (grp, ''translateY'', 1.5 * scale, 15 + offset),
         (grp, ''translateY'', 0, 30 + offset), (grp, ''translateY'', 0.5 * scale, 40 + offset),
         (grp, ''translateY'', 0, 50 + offset), (grp, ''translateY'', 0, 70 + offset),
         (grp, ''translateY'', 1.5 * scale, 85 + offset), (grp, ''translateY'', 0, 100 + offset)]
      else if animation_type = ''spin'' then
        [(grp, ''rotateY'', 0, 1), (grp, ''rotateY'', 360, 60 + offset),
         (grp, ''rotateY'', 720, 120)]
      else if animation_type = ''pop'' then
        [(grp, ''scaleX'', 0, 1 + offset), (grp, ''scaleY'', 0, 1 + offset),
         (grp, ''scaleZ'', 0, 1 + offset),
         (grp, ''scaleX'', 1.3, 10 + offset), (grp, ''scaleY'', 1.3, 10 + offset),
         (grp, ''scaleZ'', 1.3, 10 + offset),
         (grp, ''scaleX'', 1, 20 + offset), (grp, ''scaleY'', 1, 20 + offset),
         (grp, ''scaleZ'', 1, 20 + offset)]
      else [])"

text \<open>\<open>text.replace(' ', '_')\<close>.\<close>

definition replace_spaces :: "string \<Rightarrow> string" where
  "replace_spaces t = map (\<lambda>c. if c = CHR '' '' then CHR ''_'' else c) t"

text \<open>
  \<open>create_3d_text\<close> of fancy\_3d\_text.py.  The font and the extrusion, bevel and
  spacing parameters only reach host geometry calls, whose outcome is \<open>textCurves\<close>;
  the placement of the letters is read back from the host's bounding boxes and is not
  modelled.  The function returns \<open>(main_group, letter_meshes)\<close>, or \<open>(None, [])\<close>
  when no letter group was made.
\<close>

record text_result =
  main_group :: "string option"
  letter_meshes :: "string list"
  letters :: "letter list"
  keyframes :: "keyframe list"
  warnings :: "warning list"

definition create_3d_text ::
  "(nat \<Rightarrow> char \<Rightarrow> text_curves) \<Rightarrow> bool \<Rightarrow> string \<Rightarrow> string \<Rightarrow> bool \<Rightarrow> bool \<Rightarrow> real \<Rightarrow> bool
     \<Rightarrow> string \<Rightarrow> real \<Rightarrow> py_error + text_result" where
  "create_3d_text textCurves arnold text color_preset per_letter_colors add_glow glow_intensity
       add_animation animation_type scale =
     (case preset_colors color_preset of
        Inl e \<Rightarrow> Inl e
      | Inr cs \<Rightarrow>
          (case letters_loop textCurves arnold cs per_letter_colors add_glow glow_intensity
                  (enumerate 0 text) of
             Inl e \<Rightarrow> Inl e
           | Inr (ls, ws) \<Rightarrow>
               (let letter_groups = map letter_grp ls in
                if letter_groups \<noteq> [] then
                  Inr \<lparr>main_group = Some (''text_'' @ replace_spaces text @ ''_grp''),
                       letter_meshes = map letter_mesh ls,
                       letters = ls,
                       keyframes =
                         (if add_animation
                          then concat (map (\<lambda>(i, grp). letter_animation animation_type scale i grp)
                                         (enumerate 0 letter_groups))
                          else []),
                       warnings = ws\<rparr>
                else
                  Inr \<lparr>main_group = None, letter_meshes = [], letters = [],
                       keyframes = [], warnings = ws\<rparr>)))"

section \<open>fancy\_3d\_text\_v2.py\<close>

definition COLOR_PRESETS_v2 :: "(string \<times> vec3 list) list" where
  "COLOR_PRESETS_v2 =
    [(''rainbow'',
       [(1.0, 0.0, 0.0),
        (1.0, 0.5, 0.0),
        (1.0, 1.0, 0.0),
        (0.0, 1.0, 0.0),
        (0.0, 0.5, 1.0),
        (0.0, 0.0, 1.0),
        (0.5, 0.0, 1.0),
        (1.0, 0.0, 0.5)]),
     (''fire'',
       [(1.0, 0.0, 0.0),
        (1.0, 0.3, 0.0),
        (1.0, 0.5, 0.0),
        (1.0, 0.7, 0.0),
        (1.0, 1.0, 0.0)]),
     (''ocean'',
       [(0.0, 0.2, 0.4),
        (0.0, 0.4, 0.6),
        (0.0, 0.6, 0.8),
        (0.0, 0.8, 0.8),
        (0.5, 1.0, 1.0)]),
     (''neon'',
       [(1.0, 0.0, 0.5),
        (0.0, 1.0, 1.0),
        (1.0, 1.0, 0.0),
        (0.0, 1.0, 0.0),
        (1.0, 0.0, 1.0)]),
     (''gold'',
       [(1.0, 0.84, 0.0),
        (0.85, 0.65, 0.13),
        (1.0, 0.75, 0.0),
        (0.96, 0.87, 0.70),
        (1.0, 0.94, 0.0)]),
     (''forest'',
       [(0.13, 0.55, 0.13),
        (0.0, 0.39, 0.0),
        (0.18, 0.55, 0.34),
        (0.56, 0.74, 0.56),
        (0.49, 0.99, 0.0)])]"

text \<open>The same line of fancy\_3d\_text\_v2.py, on its own table.\<close>

definition preset_colors_v2 :: "string \<Rightarrow> py_error + vec3 list" where
  "preset_colors_v2 color_preset =
     (case subscript COLOR_PRESETS_v2 ''rainbow'' of
        Inl e \<Rightarrow> Inl e
      | Inr rainbow \<Rightarrow> Inr (dict_get COLOR_PRESETS_v2 color_preset rainbow))"

text \<open>The \<open>letter_patterns\<close> dict local to \<open>create_primitive_text\<close>.\<close>

definition letter_patterns :: "(char \<times> (real \<times> real) list) list" where
  "letter_patterns =
    [(CHR ''A'', [(0, 0), (0, 1), (0, 2), (1, 2), (2, 2), (2, 1), (2, 0), (1, 1)]),
     (CHR ''B'', [(0, 0), (0, 1), (0, 2), (1, 2), (2, 1.5), (1, 1), (2, 0.5), (1, 0)]),
     (CHR ''C'', [(0, 0), (0, 1), (0, 2), (1, 2), (2, 2), (1, 0), (2, 0)]),
     (CHR ''D'', [(0, 0), (0, 1), (0, 2), (1, 2), (2, 1), (1, 0)]),
     (CHR ''E'', [(0, 0), (0, 1), (0, 2), (1, 2), (2, 2), (1, 1), (1, 0), (2, 0)]),
     (CHR ''F'', [(0, 0), (0, 1), (0, 2), (1, 2), (2, 2), (1, 1)]),
     (CHR ''G'', [(0, 0), (0, 1), (0, 2), (1, 2), (2, 2), (2, 0), (1, 0), (2, 1), (1.5, 1)]),
     (CHR ''H'', [(0, 0), (0, 1), (0, 2), (1, 1), (2, 0), (2, 1), (2, 2)]),
     (CHR ''I'', [(0, 0), (1, 0), (2, 0), (1, 1), (0, 2), (1, 2), (2, 2)]),
     (CHR ''J'', [(0, 0), (1, 0), (2, 0), (2, 1), (2, 2), (1, 2), (0, 2)]),
     (CHR ''K'', [(0, 0), (0, 1), (0, 2), (1, 1), (2, 0), (2, 2)]),
     (CHR ''L'', [(0, 0), (0, 1), (0, 2), (1, 0), (2, 0)]),
     (CHR ''M'', [(0, 0), (0, 1), (0, 2), (1, 1.5), (2, 2), (2, 1), (2, 0)]),
     (CHR ''N'', [(0, 0), (0, 1), (0, 2), (1, 1.5), (2, 2), (2, 1), (2, 0)]),
     (CHR ''O'', [(0, 0), (0, 1), (0, 2), (1, 2), (2, 2), (2, 1), (2, 0), (1, 0)]),
     (CHR ''P'', [(0, 0), (0, 1), (0, 2), (1, 2), (2, 2), (2, 1.5), (1, 1)]),
     (CHR ''Q'', [(0, 0), (0, 1), (0, 2), (1, 2), (2, 2), (2, 1), (2, 0), (1, 0), (1.5, -0.5)]),
     (CHR ''R'', [(0, 0), (0, 1), (0, 2), (1, 2), (2, 2), (2, 1.5), (1, 1), (2, 0)]),
     (CHR ''S'', [(0, 0), (1, 0), (2, 0), (2, 1), (1, 1), (0, 1), (0, 2), (1, 2), (2, 2)]),
     (CHR ''T'', [(0, 2), (1, 2), (2, 2), (1, 1), (1, 0)]),
     (CHR ''U'', [(0, 2), (0, 1), (0, 0), (1, 0), (2, 0), (2, 1), (2, 2)]),
     (CHR ''V'', [(0, 2), (0, 1), (1, 0), (2, 1), (2, 2)]),
     (CHR ''W'', [(0, 2), (0, 1), (0, 0), (1, 0.5), (2, 0), (2, 1), (2, 2)]),
     (CHR ''X'', [(0, 0), (0, 2), (1, 1), (2, 0), (2, 2)]),
     (CHR ''Y'', [(0, 2), (1, 1), (2, 2), (1, 0)]),
     (CHR ''Z'', [(0, 2), (1, 2), (2, 2), (2, 1), (1, 1), (0, 1), (0, 0), (1, 0), (2, 0)]),
     (CHR '' '', []),
     (CHR ''!'', [(1, 2), (1, 1), (1, 0)]),
     (CHR ''.'', [(1, 0)])]"

text \<open>
  \<open>text.upper()\<close> replaces every character of the text by its upper-case mapping.  The
  mapping of one character is the Python runtime's: a character without case is kept, a
  cased character becomes one character or several (the sharp s becomes \<open>SS\<close>), so
  the result can be longer than the text.  The mapping is the parameter \<open>str_upper\<close> of
  the functions that call \<open>upper\<close>.
\<close>

type_synonym case_mapping = "char \<Rightarrow> string"

definition upper :: "case_mapping \<Rightarrow> string \<Rightarrow> string" where
  "upper str_upper t = concat (map str_upper t)"

text \<open>
  The mapping on ASCII characters: the lower-case letters are replaced, every other
  character is kept.  \<open>latin1_upper\<close> is the mapping on the characters below 256:
  the sharp s (character 223) becomes \<open>SS\<close>.
\<close>

definition upper_char :: "char \<Rightarrow> char" where
  "upper_char c =
     dict_get (zip ''abcdefghijklmnopqrstuvwxyz'' ''ABCDEFGHIJKLMNOPQRSTUVWXYZ'') c c"

definition ascii_upper :: case_mapping where
  "ascii_upper c = [upper_char c]"

definition latin1_upper :: case_mapping where
  "latin1_upper c = (if c = CHR 0xDF then ''SS'' else ascii_upper c)"

text \<open>
  A letter group appended to \<open>meshes\<close> by \<open>create_primitive_text\<close>: its name, the
  positions its cubes are moved to, and whether the cubes were united into one mesh.
  The children listed by the host are the cubes just parented to the group.
\<close>

record primitive_letter =
  letter_group :: string
  cubes :: "vec3 list"
  united :: bool

fun primitive_loop :: "real \<Rightarrow> real \<Rightarrow> string \<Rightarrow> primitive_letter list" where
  "primitive_loop scale x_pos [] = []"
| "primitive_loop scale x_pos (char # rest) =
     (if char = CHR '' '' then primitive_loop scale (x_pos + 2 * scale) rest
      else
        (let pattern = dict_get letter_patterns char (dict_get letter_patterns CHR ''?'' [(1, 1)]);
             made =
               (if pattern \<noteq> [] then
                  (let children =
                         map (\<lambda>(px, py). ((x_pos + px * 0.5) * scale, py * 0.5 * scale, 0)) pattern;
                       letter_name = ''letter_'' @ [char] @ ''_grp''
                   in if children \<noteq> [] \<and> length children > 1 then
                        [\<lparr>letter_group = letter_name, cubes = children, united = True\<rparr>]
                      else if children \<noteq> [] then
                        [\<lparr>letter_group = letter_name, cubes = children, united = False\<rparr>]
                      else [])
                else [])
         in made @ primitive_loop scale (x_pos + 3 * scale) rest))"

definition create_primitive_text ::
  "case_mapping \<Rightarrow> string \<Rightarrow> real \<Rightarrow> primitive_letter list" where
  "create_primitive_text str_upper text scale = primitive_loop scale 0 (upper str_upper text)"

text \<open>The keyframes of \<open>add_text_animation\<close>: the body for mesh \<open>i\<close>, then the loop.\<close>

definition mesh_animation :: "string \<Rightarrow> nat \<Rightarrow> string \<Rightarrow> keyframe list" where
  "mesh_animation animation_type i mesh =
     (let offset = real (i * 5) in
      if animation_type = ''wave'' then
        [(mesh, ''translateY'', 0, 1 + offset), (mesh, ''translateY'', 0.5, 15 + offset),
         (mesh, ''translateY'', 0, 30 + offset)]
      else if animation_type = ''bounce'' then
        [(mesh, ''translateY'', 0, 1 + offset), (mesh, ''translateY'', 1.0, 10 + offset),
         (mesh, ''translateY'', 0, 20 + offset), (mesh, ''translateY'', 0.5, 25 + offset),
         (mesh, ''translateY'', 0, 30 + offset)]
      else if animation_type = ''spin'' then
        [(mesh, ''rotateY'', 0, 1), (mesh, ''rotateY'', 360, 120)]
      else if animation_type = ''pop'' then
        [(mesh, ''scaleX'', 0, 1 + offset), (mesh, ''scaleY'', 0, 1 + offset),
         (mesh, ''scaleZ'', 0, 1 + offset),
         (mesh, ''scaleX'', 1.2, 10 + offset), (mesh, ''scaleY'', 1.2, 10 + offset),
         (mesh, ''scaleZ'', 1.2, 10 + offset),
         (mesh, ''scaleX'', 1, 15 + offset), (mesh, ''scaleY'', 1, 15 + offset),
         (mesh, ''scaleZ'', 1, 15 + offset)]
      else [])"

definition add_text_animation :: "string list \<Rightarrow> string \<Rightarrow> keyframe list" where
  "add_text_animation meshes animation_type =
     (if meshes = [] then []
      else concat (map (\<lambda>(i, mesh). mesh_animation animation_type i mesh) (enumerate 0 meshes)))"

text \<open>
  The materials applied in \<open>create_3d_text\<close>: mesh, colour \<open>colors[i % len(colors)]\<close>
  and material name.
\<close>

fun apply_materials :: "vec3 list \<Rightarrow> (nat \<times> string) list \<Rightarrow> py_error + (string \<times> vec3 \<times> string) list" where
  "apply_materials cs [] = Inr []"
| "apply_materials cs ((i, mesh) # rest) =
     (if cs = [] then Inl ZeroDivisionError
      else
        (case apply_materials cs rest of
           Inl e \<Rightarrow> Inl e
         | Inr ms \<Rightarrow> Inr ((mesh, cs ! (i mod length cs), ''text_mat_'' @ str_nat i) # ms)))"

text \<open>
  \<open>create_3d_text\<close> of fancy\_3d\_text\_v2.py.  \<open>type_meshes\<close> is the list \<open>all_meshes\<close>
  as the font-dependent block (the host's Type tool inside \<open>try\<close>) leaves it: empty when
  the tool raised or no transform was found; \<open>str_upper\<close> is the upper-case mapping
  that \<open>create_primitive_text\<close> applies with \<open>text.upper()\<close>.  The function returns
  \<open>(main_group, all_meshes)\<close>, or \<open>(None, [])\<close>.
\<close>

record text_v2_result =
  v2_main_group :: "string option"
  v2_all_meshes :: "string list"
  v2_fallback :: "primitive_letter list"
  v2_materials :: "(string \<times> vec3 \<times> string) list"
  v2_keyframes :: "keyframe list"

definition create_3d_text_v2 ::
  "case_mapping \<Rightarrow> string list \<Rightarrow> string \<Rightarrow> string \<Rightarrow> bool \<Rightarrow> string \<Rightarrow> real
     \<Rightarrow> py_error + text_v2_result" where
  "create_3d_text_v2 str_upper type_meshes text color_preset add_animation animation_type scale =
     (case preset_colors_v2 color_preset of
        Inl e \<Rightarrow> Inl e
      | Inr cs \<Rightarrow>
          (let fallback = (if type_meshes = [] then create_primitive_text str_upper text scale else []);
               all_meshes = (if type_meshes = [] then map letter_group fallback else type_meshes)
           in if all_meshes = [] then
                Inr \<lparr>v2_main_group = None, v2_all_meshes = [], v2_fallback = fallback,
                     v2_materials = [], v2_keyframes = []\<rparr>
              else
                (case apply_materials cs (enumerate 0 all_meshes) of
                   Inl e \<Rightarrow> Inl e
                 | Inr ms \<Rightarrow>
                     Inr \<lparr>v2_main_group = Some (''fancy_text_'' @ replace_spaces text @ ''_grp''),
                          v2_all_meshes = all_meshes, v2_fallback = fallback,
                          v2_materials = ms,
                          v2_keyframes =
                            (if add_animation \<and> all_meshes \<noteq> []
                             then add_text_animation all_meshes animation_type else [])\<rparr>)))"

section \<open>The closed form of the circle formations\<close>

text \<open>
  The placement the specification states for the diamond and circle formations, in its
  own words: the point at the given angle (in degrees) on the circle of the given radius
  in the plane \<open>y = 0\<close>.  It is compared below with what the loops compute.
\<close>

definition circle_point :: "real \<Rightarrow> real \<Rightarrow> vec3" where
  "circle_point radius degrees =
     (radius * cos (radians degrees), 0, radius * sin (radians degrees))"

section \<open>Dictionary access and loops\<close>

lemma py_in_iff: "py_in k d \<longleftrightarrow> map_of d k \<noteq> None"
  by (simp add: py_in_def map_of_eq_None_iff)

lemma subscript_in: "py_in k d \<Longrightarrow> \<exists>v. subscript d k = Inr v \<and> map_of d k = Some v"
  by (auto simp: py_in_iff subscript_def)

lemma length_py_range: "length (py_range n) = nat n"
  by (simp add: py_range_def)

lemma nth_py_range: "k < nat n \<Longrightarrow> py_range n ! k = int k"
  by (simp add: py_range_def)

lemma squadron_loop_nth:
  "squadron_loop count c t f is = Inr ships \<Longrightarrow>
   length ships = length is \<and>
   (\<forall>k<length is.
      create_starship (''squad_'' @ str_int (is ! k + 1)) c t 0.8 True ''hover''
        = Inr (built (ships ! k)) \<and>
      squadron_transform f (is ! k) count = Inr (moved_to (ships ! k), rotated_to (ships ! k)))"
proof (induction "is" arbitrary: ships)
  case Nil
  then show ?case by simp
next
  case (Cons i "is")
  from Cons.prems obtain ship m r rest where
    s: "create_starship (''squad_'' @ str_int (i + 1)) c t 0.8 True ''hover'' = Inr ship"
    and tr: "squadron_transform f i count = Inr (m, r)"
    and rest: "squadron_loop count c t f is = Inr rest"
    and ships: "ships = \<lparr>built = ship, moved_to = m, rotated_to = r\<rparr> # rest"
    by (auto split: sum.splits prod.splits)
  from Cons.IH [OF rest] have ih: "length rest = length is"
    "\<And>k. k < length is \<Longrightarrow>
      create_starship (''squad_'' @ str_int (is ! k + 1)) c t 0.8 True ''hover''
        = Inr (built (rest ! k)) \<and>
      squadron_transform f (is ! k) count = Inr (moved_to (rest ! k), rotated_to (rest ! k))"
    by simp_all
  show ?case
  proof (intro conjI allI impI)
    show "length ships = length (i # is)" using ih(1) ships by simp
  next
    fix k assume "k < length (i # is)"
    then show "create_starship (''squad_'' @ str_int ((i # is) ! k + 1)) c t 0.8 True ''hover''
        = Inr (built (ships ! k))"
      using s ih(2) ships by (cases k) simp_all
  next
    fix k assume "k < length (i # is)"
    then show "squadron_transform f ((i # is) ! k) count
        = Inr (moved_to (ships ! k), rotated_to (ships ! k))"
      using tr ih(2) ships by (cases k) simp_all
  qed
qed


lemma create_ship_position:
  "create_ship rnd ty nm sc pos = Inr s \<Longrightarrow> ship_position s = pos"
  by (auto simp: create_ship_def Let_def split: sum.splits)

lemma create_character_position:
  "create_character rnd ty nm sc pos pose h a = Inr m \<Longrightarrow> c_position m = pos"
  by (auto simp: create_character_def Let_def split: sum.splits prod.splits)

lemma fleet_loop_nth:
  "fleet_loop rnd r sl count f is = Inr ships \<Longrightarrow>
   length ships = length is \<and>
   (\<forall>k<length is. ship_position (ships ! k) = fleet_position f (is ! k) count (r (is ! k)))"
proof (induction "is" arbitrary: ships)
  case Nil
  then show ?case by simp
next
  case (Cons i "is")
  from Cons.prems obtain ship rest where
    s: "create_ship (rnd i) (sl ! nat (i mod int (length sl))) None 1.0
          (fleet_position f i count (r i)) = Inr ship"
    and rest: "fleet_loop rnd r sl count f is = Inr rest"
    and ships: "ships = ship # rest"
    by (auto simp: Let_def split: sum.splits if_splits)
  from Cons.IH [OF rest] have ih: "length rest = length is"
    "\<And>k. k < length is \<Longrightarrow>
       ship_position (rest ! k) = fleet_position f (is ! k) count (r (is ! k))"
    by simp_all
  have p: "ship_position ship = fleet_position f i count (r i)"
    using s by (rule create_ship_position)
  show ?case
  proof (intro conjI allI impI)
    show "length ships = length (i # is)" using ih(1) ships by simp
  next
    fix k assume "k < length (i # is)"
    then show "ship_position (ships ! k)
        = fleet_position f ((i # is) ! k) count (r ((i # is) ! k))"
      using p ih(2) ships by (cases k) simp_all
  qed
qed

lemma horde_loop_nth:
  "horde_loop rnd r ty count f is = Inr ms \<Longrightarrow>
   length ms = length is \<and>
   (\<forall>k<length is.
      horde_position f (is ! k) count (r (is ! k))
        = Inr (c_position (mob (ms ! k)), mob_rotated (ms ! k)))"
proof (induction "is" arbitrary: ms)
  case Nil
  then show ?case by simp
next
  case (Cons i "is")
  from Cons.prems obtain p rot m rest where
    hp: "horde_position f i count (r i) = Inr (p, rot)"
    and c: "create_character (rnd i) ty None 1.0 p
              (if ty = ''zombie'' then ''zombie'' else ''walking'')
              (if ty = ''skeleton'' then Some ''bow'' else None) None = Inr m"
    and rest: "horde_loop rnd r ty count f is = Inr rest"
    and ms: "ms = \<lparr>mob = m, mob_rotated = rot\<rparr> # rest"
    by (auto simp: Let_def split: sum.splits prod.splits)
  from Cons.IH [OF rest] have ih: "length rest = length is"
    "\<And>k. k < length is \<Longrightarrow>
       horde_position f (is ! k) count (r (is ! k))
         = Inr (c_position (mob (rest ! k)), mob_rotated (rest ! k))"
    by simp_all
  have p: "c_position m = p" using c by (rule create_character_position)
  show ?case
  proof (intro conjI allI impI)
    show "length ms = length (i # is)" using ih(1) ms by simp
  next
    fix k assume "k < length (i # is)"
    then show "horde_position f ((i # is) ! k) count (r ((i # is) ! k))
        = Inr (c_position (mob (ms ! k)), mob_rotated (ms ! k))"
      using hp p ih(2) ms by (cases k) simp_all
  qed
qed

lemma federation_in: "py_in ''federation'' SHIP_THEMES"
  by (simp add: py_in_def SHIP_THEMES_def)

lemma create_starship_total:
  "\<exists>s. create_starship nm c t sc a st = Inr s"
proof -
  let ?t = "if \<not> py_in t SHIP_THEMES then ''federation'' else t"
  have "py_in ?t SHIP_THEMES" using federation_in by simp
  then have "\<exists>v. subscript SHIP_THEMES ?t = Inr v \<and> map_of SHIP_THEMES ?t = Some v"
    by (rule subscript_in)
  then obtain cs where cs: "subscript SHIP_THEMES ?t = Inr cs"
    by (elim exE conjE)
  show ?thesis
    unfolding create_starship_def Let_def using cs by (simp split: option.splits)
qed

lemma squadron_transform_total:
  "count \<noteq> 0 \<Longrightarrow> \<exists>m r. squadron_transform f i count = Inr (m, r)"
  by (simp add: squadron_transform_def Let_def)

lemma squadron_loop_total:
  "count \<noteq> 0 \<Longrightarrow> \<exists>ships. squadron_loop count c t f is = Inr ships"
proof (induction "is")
  case Nil
  then show ?case by simp
next
  case (Cons i "is")
  obtain s where s: "create_starship (''squad_'' @ str_int (i + 1)) c t 0.8 True ''hover'' = Inr s"
    using create_starship_total by blast
  obtain m r where tr: "squadron_transform f i count = Inr (m, r)"
    using squadron_transform_total [OF Cons.prems] by blast
  from Cons obtain rest where rest: "squadron_loop count c t f is = Inr rest" by blast
  show ?case using s tr rest by simp
qed

lemma create_squadron_total:
  "\<exists>ships. create_squadron n c t f = Inr ships \<and> length ships = nat (min n 12)"
proof (cases "min n 12 = 0")
  case True
  then show ?thesis by (simp add: create_squadron_def py_range_def)
next
  case False
  then obtain ships where
    l: "squadron_loop (min n 12) c t f (py_range (min n 12)) = Inr ships"
    using squadron_loop_total by blast
  from squadron_loop_nth [OF l] have "length ships = nat (min n 12)"
    by (simp add: length_py_range)
  with l show ?thesis by (simp add: create_squadron_def Let_def)
qed

lemma create_ship_total: "\<exists>s. create_ship rnd ty nm sc pos = Inr s"
proof -
  let ?t = "if \<not> py_in ty SHIP_TYPES then ''xwing'' else ty"
  have xw: "py_in ''xwing'' SHIP_TYPES" by (simp add: py_in_def SHIP_TYPES_def)
  then have kin: "py_in ?t SHIP_TYPES" by simp
  then have "\<exists>v. subscript SHIP_TYPES ?t = Inr v \<and> map_of SHIP_TYPES ?t = Some v"
    by (rule subscript_in)
  then obtain e where e: "subscript SHIP_TYPES ?t = Inr e" by (elim exE conjE)
  have "map fst builders = map fst SHIP_TYPES" by (simp add: builders_def SHIP_TYPES_def)
  with kin have "py_in ?t builders" by (simp add: py_in_def)
  then have "\<exists>v. subscript builders ?t = Inr v \<and> map_of builders ?t = Some v"
    by (rule subscript_in)
  then obtain b where b: "subscript builders ?t = Inr b" by (elim exE conjE)
  show ?thesis unfolding create_ship_def Let_def using e b by simp
qed

lemma fleet_loop_total:
  "sl \<noteq> [] \<Longrightarrow> \<exists>ships. fleet_loop rnd r sl count f is = Inr ships"
proof (induction "is")
  case Nil
  then show ?case by simp
next
  case (Cons i "is")
  obtain s where s: "create_ship (rnd i) (sl ! nat (i mod int (length sl))) None 1.0
          (fleet_position f i count (r i)) = Inr s"
    using create_ship_total by blast
  from Cons obtain rest where rest: "fleet_loop rnd r sl count f is = Inr rest" by blast
  show ?case using s rest Cons.prems by (simp add: Let_def)
qed

lemma faction_ships_nonempty:
  "\<exists>mixed. subscript faction_ships ''mixed'' = Inr mixed \<and>
     dict_get faction_ships faction mixed \<noteq> []"
proof -
  have "\<forall>p \<in> set faction_ships. snd p \<noteq> []" by (simp add: faction_ships_def)
  then have ne: "\<And>v. map_of faction_ships faction = Some v \<Longrightarrow> v \<noteq> []"
    by (metis map_of_SomeD snd_conv)
  have m: "subscript faction_ships ''mixed''
            = Inr [''xwing'', ''tie'', ''falcon'', ''shuttle'', ''awing'', ''interceptor'']"
    by (simp add: subscript_def faction_ships_def)
  show ?thesis using m ne by (auto simp: dict_get_def split: option.splits)
qed

lemma create_fleet_total:
  "\<exists>fleet. create_fleet rnd r faction n f = Inr fleet \<and> length fleet = nat n"
proof -
  obtain mixed where m: "subscript faction_ships ''mixed'' = Inr mixed"
    and ne: "dict_get faction_ships faction mixed \<noteq> []"
    using faction_ships_nonempty by blast
  obtain fleet where
    l: "fleet_loop rnd r (dict_get faction_ships faction mixed) n f (py_range n) = Inr fleet"
    using fleet_loop_total [OF ne] by blast
  from fleet_loop_nth [OF l] have "length fleet = nat n" by (simp add: length_py_range)
  with l m show ?thesis by (simp add: create_fleet_def)
qed

section \<open>Table lookups\<close>

lemma subscript_Some: "map_of d k = Some v \<Longrightarrow> subscript d k = Inr v"
  by (simp add: subscript_def)

lemma xwing_in: "py_in ''xwing'' SHIP_TYPES"
  by (simp add: py_in_def SHIP_TYPES_def)

lemma steve_in: "py_in ''steve'' CHARACTERS"
  by (simp add: py_in_def CHARACTERS_def)

lemma rainbow_in: "py_in ''rainbow'' COLOR_PRESETS"
  by (simp add: py_in_def COLOR_PRESETS_def)

lemma rainbow_in_v2: "py_in ''rainbow'' COLOR_PRESETS_v2"
  by (simp add: py_in_def COLOR_PRESETS_v2_def)

lemma builders_keys: "map fst builders = map fst SHIP_TYPES"
  by (simp add: builders_def SHIP_TYPES_def)

lemma xwing_builder: "map_of builders ''xwing'' = Some build_xwing"
  by (simp add: builders_def)

lemma create_ship_resolved:
  assumes kin: "py_in k SHIP_TYPES" and s: "map_of SHIP_TYPES k = Some e"
    and b: "map_of builders k = Some b"
  shows "create_ship rnd k nm sc pos =
       Inr \<lparr>ship_group = (case nm of None \<Rightarrow> k @ ''_'' @ str_int rnd | Some n \<Rightarrow> n) @ ''_grp'',
            ship_type_used = k, used_config = e, built_by = b, ship_scale = sc,
            ship_position = pos\<rparr>"
  by (simp add: create_ship_def Let_def kin subscript_Some [OF s] subscript_Some [OF b])

lemma create_ship_lookup:
  "(case map_of SHIP_TYPES k of
      Some e \<Rightarrow>
        (\<exists>s. create_ship rnd k nm sc pos = Inr s \<and> ship_type_used s = k
           \<and> used_config s = e \<and> map_of builders k = Some (built_by s))
    | None \<Rightarrow>
        (\<exists>s. create_ship rnd k nm sc pos = Inr s \<and> ship_type_used s = ''xwing''
           \<and> map_of SHIP_TYPES ''xwing'' = Some (used_config s) \<and> built_by s = build_xwing))"
proof (cases "map_of SHIP_TYPES k")
  case None
  then have nin: "\<not> py_in k SHIP_TYPES" by (simp add: py_in_iff)
  from xwing_in obtain e where e: "map_of SHIP_TYPES ''xwing'' = Some e"
    by (auto simp: py_in_iff)
  have "create_ship rnd k nm sc pos =
       Inr \<lparr>ship_group = (case nm of None \<Rightarrow> ''xwing'' @ ''_'' @ str_int rnd | Some n \<Rightarrow> n) @ ''_grp'',
            ship_type_used = ''xwing'', used_config = e, built_by = build_xwing, ship_scale = sc,
            ship_position = pos\<rparr>"
    by (simp add: create_ship_def Let_def nin subscript_Some [OF e] subscript_Some [OF xwing_builder])
  with None e show ?thesis by simp
next
  case (Some e)
  then have kin: "py_in k SHIP_TYPES" by (simp add: py_in_iff)
  then have "py_in k builders" by (simp add: py_in_def builders_keys)
  then obtain b where b: "map_of builders k = Some b" by (auto simp: py_in_iff)
  from create_ship_resolved [OF kin Some b] Some b show ?thesis by simp
qed


lemma create_character_resolved:
  assumes kin: "py_in k CHARACTERS" and s: "map_of CHARACTERS k = Some e"
  shows "\<exists>m. create_character rnd k nm sc pos pose h a = Inr m \<and> c_type m = k \<and> c_config m = e"
  by (simp add: create_character_def Let_def kin subscript_Some [OF s] split: prod.splits)

lemma create_character_lookup:
  "(case map_of CHARACTERS k of
      Some e \<Rightarrow>
        (\<exists>m. create_character rnd k nm sc pos pose h a = Inr m \<and> c_type m = k
           \<and> c_config m = e)
    | None \<Rightarrow>
        (\<exists>m. create_character rnd k nm sc pos pose h a = Inr m \<and> c_type m = ''steve''
           \<and> map_of CHARACTERS ''steve'' = Some (c_config m)))"
proof (cases "map_of CHARACTERS k")
  case None
  then have nin: "\<not> py_in k CHARACTERS" by (simp add: py_in_iff)
  from steve_in obtain e where e: "map_of CHARACTERS ''steve'' = Some e"
    by (auto simp: py_in_iff)
  have "\<exists>m. create_character rnd k nm sc pos pose h a = Inr m \<and> c_type m = ''steve''
           \<and> c_config m = e"
    by (simp add: create_character_def Let_def nin subscript_Some [OF e] split: prod.splits)
  with None e show ?thesis by auto
next
  case (Some e)
  then have kin: "py_in k CHARACTERS" by (simp add: py_in_iff)
  from create_character_resolved [OF kin Some] Some show ?thesis by simp
qed

lemma create_starship_theme_lookup:
  "(case map_of SHIP_THEMES th of
      Some cs \<Rightarrow>
        (\<exists>s. create_starship nm c th sc a st = Inr s \<and> theme_used s = th
           \<and> theme_colors s = cs)
    | None \<Rightarrow>
        (\<exists>s. create_starship nm c th sc a st = Inr s \<and> theme_used s = ''federation''
           \<and> map_of SHIP_THEMES ''federation'' = Some (theme_colors s)))"
proof (cases "map_of SHIP_THEMES th")
  case None
  then have nin: "\<not> py_in th SHIP_THEMES" by (simp add: py_in_iff)
  from federation_in obtain e where e: "map_of SHIP_THEMES ''federation'' = Some e"
    by (auto simp: py_in_iff)
  have "\<exists>s. create_starship nm c th sc a st = Inr s \<and> theme_used s = ''federation''
           \<and> theme_colors s = e"
    by (simp add: create_starship_def Let_def nin subscript_Some [OF e])
  with None e show ?thesis by auto
next
  case (Some cs)
  then have kin: "py_in th SHIP_THEMES" by (simp add: py_in_iff)
  have "\<exists>s. create_starship nm c th sc a st = Inr s \<and> theme_used s = th
           \<and> theme_colors s = cs"
    by (simp add: create_starship_def Let_def kin subscript_Some [OF Some])
  with Some show ?thesis by simp
qed

lemma create_starship_class_lookup:
  "\<exists>s. create_starship nm c th sc a st = Inr s
     \<and> (c \<in> set [''interceptor'', ''heavy_fighter'', ''racer''] \<longrightarrow> class_used s = c)
     \<and> (c \<notin> set [''interceptor'', ''heavy_fighter'', ''racer'']
          \<longrightarrow> class_used s = ''interceptor'')
     \<and> class_built_by s =
          (if class_used s = ''interceptor'' then v2_build_interceptor
           else if class_used s = ''heavy_fighter'' then v2_build_heavy_fighter
           else v2_build_racer)"
proof -
  let ?t = "if \<not> py_in th SHIP_THEMES then ''federation'' else th"
  have "py_in ?t SHIP_THEMES" using federation_in by simp
  then obtain cs where cs: "map_of SHIP_THEMES ?t = Some cs" by (auto simp: py_in_iff)
  show ?thesis
    unfolding create_starship_def Let_def using subscript_Some [OF cs] by simp
qed

lemma preset_colors_lookup:
  "(case map_of COLOR_PRESETS p of
      Some cs \<Rightarrow> preset_colors p = Inr cs
    | None \<Rightarrow> (\<exists>r. map_of COLOR_PRESETS ''rainbow'' = Some r \<and> preset_colors p = Inr r))"
proof -
  from rainbow_in obtain r where r: "map_of COLOR_PRESETS ''rainbow'' = Some r"
    by (auto simp: py_in_iff)
  show ?thesis
    by (simp add: preset_colors_def subscript_Some [OF r] dict_get_def r split: option.splits)
qed

lemma preset_colors_v2_lookup:
  "(case map_of COLOR_PRESETS_v2 p of
      Some cs \<Rightarrow> preset_colors_v2 p = Inr cs
    | None \<Rightarrow> (\<exists>r. map_of COLOR_PRESETS_v2 ''rainbow'' = Some r \<and> preset_colors_v2 p = Inr r))"
proof -
  from rainbow_in_v2 obtain r where r: "map_of COLOR_PRESETS_v2 ''rainbow'' = Some r"
    by (auto simp: py_in_iff)
  show ?thesis
    by (simp add: preset_colors_v2_def subscript_Some [OF r] dict_get_def r split: option.splits)
qed

section \<open>The letter loop of fancy\_3d\_text.py\<close>

lemma palettes_nonempty: "\<forall>e \<in> set COLOR_PRESETS. snd e \<noteq> []"
  by (simp add: COLOR_PRESETS_def)

lemma preset_colors_nonempty: "\<exists>cs. preset_colors p = Inr cs \<and> cs \<noteq> []"
proof (cases "map_of COLOR_PRESETS p")
  case None
  with preset_colors_lookup [of p] obtain r
    where r: "map_of COLOR_PRESETS ''rainbow'' = Some r" "preset_colors p = Inr r" by auto
  from r(1) have "(''rainbow'', r) \<in> set COLOR_PRESETS" by (rule map_of_SomeD)
  with palettes_nonempty have "r \<noteq> []" by fastforce
  with r(2) show ?thesis by simp
next
  case (Some cs)
  with preset_colors_lookup [of p] have c: "preset_colors p = Inr cs" by simp
  from Some have "(p, cs) \<in> set COLOR_PRESETS" by (rule map_of_SomeD)
  with palettes_nonempty have "cs \<noteq> []" by fastforce
  with c show ?thesis by simp
qed

lemma material_color_nonempty:
  "cs \<noteq> [] \<Longrightarrow>
   material_color cs per i = Inr (if per then cs ! (i mod length cs) else cs ! 0)"
  by (simp add: material_color_def Let_def)

lemma letter_step_total:
  "cs \<noteq> [] \<Longrightarrow> \<exists>ls ws. letter_step tc a cs per g gi p = Inr (ls, ws)"
  by (simp add: letter_step_def Let_def material_color_nonempty split: text_curves.splits)

lemma letters_loop_total:
  "cs \<noteq> [] \<Longrightarrow> \<exists>ls ws. letters_loop tc a cs per g gi ps = Inr (ls, ws)"
proof (induction ps)
  case Nil
  then show ?case by simp
next
  case (Cons p ps)
  from letter_step_total [OF Cons.prems] obtain ls ws
    where s: "letter_step tc a cs per g gi p = Inr (ls, ws)" by blast
  from Cons obtain ls' ws' where r: "letters_loop tc a cs per g gi ps = Inr (ls', ws')"
    by blast
  show ?case using s r by simp
qed

lemma letters_loop_Cons:
  "letters_loop tc a cs per g gi (p # ps) = Inr (ls, ws) \<Longrightarrow>
   \<exists>l1 w1 l2 w2. letter_step tc a cs per g gi p = Inr (l1, w1)
     \<and> letters_loop tc a cs per g gi ps = Inr (l2, w2) \<and> ls = l1 @ l2 \<and> ws = w1 @ w2"
  by (auto split: sum.splits prod.splits)

lemma letter_step_letter:
  assumes "letter_step tc a cs per g gi (i, c) = Inr (ls, ws)" and "l \<in> set ls"
  shows "letter_mesh l = ''letter_'' @ [c] @ ''_'' @ str_nat i @ ''_mesh''
     \<and> material_color cs per i = Inr (letter_color l)"
  using assms
  by (auto simp: letter_step_def Let_def split: if_splits text_curves.splits sum.splits)

lemma letters_loop_letter:
  "letters_loop tc a cs per g gi ps = Inr (ls, ws) \<Longrightarrow> l \<in> set ls \<Longrightarrow>
   \<exists>i c. (i, c) \<in> set ps
     \<and> letter_mesh l = ''letter_'' @ [c] @ ''_'' @ str_nat i @ ''_mesh''
     \<and> material_color cs per i = Inr (letter_color l)"
proof (induction ps arbitrary: ls ws)
  case Nil
  then show ?case by simp
next
  case (Cons p ps)
  from letters_loop_Cons [OF Cons.prems(1)] obtain l1 w1 l2 w2 where
    s: "letter_step tc a cs per g gi p = Inr (l1, w1)"
    and r: "letters_loop tc a cs per g gi ps = Inr (l2, w2)"
    and ls: "ls = l1 @ l2" by blast
  from Cons.prems(2) ls consider "l \<in> set l1" | "l \<in> set l2" by auto
  then show ?case
  proof cases
    case 1
    obtain i c where p: "p = (i, c)" by (cases p)
    from letter_step_letter [OF s [unfolded p] 1] p show ?thesis by auto
  next
    case 2
    from Cons.IH [OF r 2] show ?thesis by auto
  qed
qed

lemma create_3d_text_letters:
  assumes "create_3d_text tc a text p per g gi anim ty sc = Inr res"
  shows "\<exists>cs ws. preset_colors p = Inr cs
     \<and> letters_loop tc a cs per g gi (enumerate 0 text) = Inr (letters res, ws)
     \<and> warnings res = ws
     \<and> letter_meshes res = map letter_mesh (letters res)
     \<and> (main_group res = None \<longleftrightarrow> letters res = [])"
  using assms
  by (auto simp: create_3d_text_def Let_def split: sum.splits prod.splits if_splits)

lemma create_3d_text_total:
  "\<exists>res. create_3d_text tc a text p per g gi anim ty sc = Inr res"
proof -
  obtain cs where cs: "preset_colors p = Inr cs" "cs \<noteq> []"
    using preset_colors_nonempty by blast
  obtain ls ws where l: "letters_loop tc a cs per g gi (enumerate 0 text) = Inr (ls, ws)"
    using letters_loop_total [OF cs(2)] by blast
  show ?thesis by (simp add: create_3d_text_def Let_def cs(1) l)
qed

lemma letters_loop_append:
  "letters_loop tc a cs per g gi (ps @ qs) =
     (case letters_loop tc a cs per g gi ps of
        Inl e \<Rightarrow> Inl e
      | Inr (l1, w1) \<Rightarrow>
          (case letters_loop tc a cs per g gi qs of
             Inl e \<Rightarrow> Inl e
           | Inr (l2, w2) \<Rightarrow> Inr (l1 @ l2, w1 @ w2)))"
  by (induction ps) (auto split: sum.splits prod.splits)

lemma letter_step_raises:
  "tc i c = Raises \<Longrightarrow> c \<noteq> CHR '' '' \<Longrightarrow>
   letter_step tc a cs per g gi (i, c) = Inr ([], [CouldNotCreateLetter c])"
  by (simp add: letter_step_def)

lemma letter_step_extruded:
  assumes "letter_step tc a cs per g gi (i, c) = Inr (ls, ws)" and "c \<noteq> CHR '' ''"
    and "tc i c = Curves cv" and "Extruded \<in> set cv"
  shows "\<exists>l \<in> set ls. letter_mesh l = ''letter_'' @ [c] @ ''_'' @ str_nat i @ ''_mesh''"
proof -
  from assms(4) have ne: "cv \<noteq> []" "filter (\<lambda>c. c = Extruded) cv \<noteq> []"
    by (auto simp: filter_empty_conv)
  from assms(1) ne assms(2,3) show ?thesis
    by (auto simp: letter_step_def Let_def split: sum.splits)
qed

lemma letters_loop_mesh:
  "letters_loop tc a cs per g gi ps = Inr (ls, ws) \<Longrightarrow> (j, ch) \<in> set ps \<Longrightarrow>
   ch \<noteq> CHR '' '' \<Longrightarrow> tc j ch = Curves cv \<Longrightarrow> Extruded \<in> set cv \<Longrightarrow>
   \<exists>l \<in> set ls. letter_mesh l = ''letter_'' @ [ch] @ ''_'' @ str_nat j @ ''_mesh''"
proof (induction ps arbitrary: ls ws)
  case Nil
  then show ?case by simp
next
  case (Cons p ps)
  from letters_loop_Cons [OF Cons.prems(1)] obtain l1 w1 l2 w2 where
    s: "letter_step tc a cs per g gi p = Inr (l1, w1)"
    and r: "letters_loop tc a cs per g gi ps = Inr (l2, w2)"
    and ls: "ls = l1 @ l2" by blast
  from Cons.prems(2) consider "p = (j, ch)" | "(j, ch) \<in> set ps" by auto
  then show ?case
  proof cases
    case 1
    from letter_step_extruded [OF s [unfolded 1] Cons.prems(3,4,5)] ls show ?thesis by auto
  next
    case 2
    from Cons.IH [OF r 2 Cons.prems(3,4,5)] ls show ?thesis by auto
  qed
qed

section \<open>The primitive letters of fancy\_3d\_text\_v2.py\<close>

lemma upper_Cons: "upper up (c # t) = up c @ upper up t"
  by (simp add: upper_def)

lemma upper_ascii:
  "\<forall>c \<in> set t. up c = ascii_upper c \<Longrightarrow> upper up t = map upper_char t"
  by (induction t) (simp_all add: upper_def ascii_upper_def)

lemma upper_char_space: "upper_char c = CHR '' '' \<longleftrightarrow> c = CHR '' ''"
proof -
  let ?U = "zip ''abcdefghijklmnopqrstuvwxyz'' ''ABCDEFGHIJKLMNOPQRSTUVWXYZ''"
  have v: "\<forall>p \<in> set ?U. snd p \<noteq> CHR '' ''" by simp
  have n: "map_of ?U CHR '' '' = None" by simp
  show ?thesis
  proof (cases "map_of ?U c")
    case None
    then show ?thesis by (simp add: upper_char_def dict_get_def)
  next
    case (Some u)
    then have "(c, u) \<in> set ?U" by (rule map_of_SomeD)
    with v have "u \<noteq> CHR '' ''" by fastforce
    moreover from Some n have "c \<noteq> CHR '' ''" by auto
    ultimately show ?thesis using Some by (simp add: upper_char_def dict_get_def)
  qed
qed

lemma filter_upper_char:
  "length (filter (\<lambda>c. c \<noteq> CHR '' '') (map upper_char t))
     = length (filter (\<lambda>c. c \<noteq> CHR '' '') t)"
  by (induction t) (simp_all add: upper_char_space)

lemma upper_keeps_a_letter:
  assumes m: "\<forall>c. c \<noteq> CHR '' '' \<longrightarrow> (\<exists>d \<in> set (up c). d \<noteq> CHR '' '')"
    and t: "\<exists>c \<in> set t. c \<noteq> CHR '' ''"
  shows "\<exists>d \<in> set (upper up t). d \<noteq> CHR '' ''"
proof -
  from t obtain c where c: "c \<in> set t" "c \<noteq> CHR '' ''" by blast
  with m obtain d where d: "d \<in> set (up c)" "d \<noteq> CHR '' ''" by blast
  from c(1) d(1) have "d \<in> set (upper up t)" by (auto simp: upper_def)
  with d(2) show ?thesis by blast
qed

lemma latin1_upper_keeps_a_letter:
  "\<forall>c. c \<noteq> CHR '' '' \<longrightarrow> (\<exists>d \<in> set (latin1_upper c). d \<noteq> CHR '' '')"
  by (simp add: latin1_upper_def ascii_upper_def upper_char_space)

lemma question_mark_pattern: "dict_get letter_patterns CHR ''?'' [(1, 1)] = [(1, 1)]"
  by (simp add: dict_get_def letter_patterns_def)

lemma empty_pattern_is_space: "\<forall>p \<in> set letter_patterns. snd p = [] \<longrightarrow> fst p = CHR '' ''"
  by (simp add: letter_patterns_def)

lemma pattern_nonempty:
  assumes "c \<noteq> CHR '' ''"
  shows "dict_get letter_patterns c (dict_get letter_patterns CHR ''?'' [(1, 1)]) \<noteq> []"
proof (cases "map_of letter_patterns c")
  case None
  then show ?thesis by (simp add: dict_get_def question_mark_pattern [unfolded dict_get_def])
next
  case (Some pat)
  then have "(c, pat) \<in> set letter_patterns" by (rule map_of_SomeD)
  with empty_pattern_is_space assms have "pat \<noteq> []" by fastforce
  with Some show ?thesis by (simp add: dict_get_def)
qed

lemma primitive_loop_step:
  assumes "c \<noteq> CHR '' ''"
  shows "\<exists>l. primitive_loop sc x (c # rest) = l # primitive_loop sc (x + 3 * sc) rest
     \<and> letter_group l = ''letter_'' @ [c] @ ''_grp''
     \<and> length (cubes l)
         = length (dict_get letter_patterns c (dict_get letter_patterns CHR ''?'' [(1, 1)]))
     \<and> cubes l \<noteq> []"
  using assms pattern_nonempty [OF assms] by (simp add: Let_def)

lemma primitive_loop_length:
  "length (primitive_loop sc x t) = length (filter (\<lambda>c. c \<noteq> CHR '' '') t)"
proof (induction t arbitrary: x)
  case Nil
  then show ?case by simp
next
  case (Cons c t)
  show ?case
  proof (cases "c = CHR '' ''")
    case True
    then show ?thesis using Cons by simp
  next
    case False
    from primitive_loop_step [OF False, of sc x t] obtain l where
      "primitive_loop sc x (c # t) = l # primitive_loop sc (x + 3 * sc) t" by blast
    with False Cons show ?thesis by simp
  qed
qed

lemma primitive_loop_cubes:
  "l \<in> set (primitive_loop sc x t) \<Longrightarrow> cubes l \<noteq> []"
proof (induction t arbitrary: x)
  case Nil
  then show ?case by simp
next
  case (Cons c t)
  show ?case
  proof (cases "c = CHR '' ''")
    case True
    with Cons show ?thesis by simp
  next
    case False
    from primitive_loop_step [OF False, of sc x t] obtain l' where
      s: "primitive_loop sc x (c # t) = l' # primitive_loop sc (x + 3 * sc) t"
      and c: "cubes l' \<noteq> []" by blast
    from Cons.prems s have "l = l' \<or> l \<in> set (primitive_loop sc (x + 3 * sc) t)" by simp
    with c Cons.IH show ?thesis by blast
  qed
qed

lemma palettes_v2_nonempty: "\<forall>e \<in> set COLOR_PRESETS_v2. snd e \<noteq> []"
  by (simp add: COLOR_PRESETS_v2_def)

lemma preset_colors_v2_nonempty: "\<exists>cs. preset_colors_v2 p = Inr cs \<and> cs \<noteq> []"
proof (cases "map_of COLOR_PRESETS_v2 p")
  case None
  with preset_colors_v2_lookup [of p] obtain r
    where r: "map_of COLOR_PRESETS_v2 ''rainbow'' = Some r" "preset_colors_v2 p = Inr r" by auto
  from r(1) have "(''rainbow'', r) \<in> set COLOR_PRESETS_v2" by (rule map_of_SomeD)
  with palettes_v2_nonempty have "r \<noteq> []" by fastforce
  with r(2) show ?thesis by simp
next
  case (Some cs)
  with preset_colors_v2_lookup [of p] have c: "preset_colors_v2 p = Inr cs" by simp
  from Some have "(p, cs) \<in> set COLOR_PRESETS_v2" by (rule map_of_SomeD)
  with palettes_v2_nonempty have "cs \<noteq> []" by fastforce
  with c show ?thesis by simp
qed

lemma apply_materials_total:
  "cs \<noteq> [] \<Longrightarrow> \<exists>ms. apply_materials cs ps = Inr ms \<and> length ms = length ps"
proof (induction ps)
  case Nil
  then show ?case by simp
next
  case (Cons p ps)
  then obtain ms where "apply_materials cs ps = Inr ms" "length ms = length ps" by blast
  with Cons.prems show ?case by (cases p) simp
qed

lemma create_3d_text_v2_fallback:
  assumes ne: "create_primitive_text up t sc \<noteq> []"
  shows "\<exists>res. create_3d_text_v2 up [] t p anim ty sc = Inr res
     \<and> v2_main_group res = Some (''fancy_text_'' @ replace_spaces t @ ''_grp'')
     \<and> v2_fallback res = create_primitive_text up t sc
     \<and> v2_all_meshes res = map letter_group (create_primitive_text up t sc)"
proof -
  obtain cs where cs: "preset_colors_v2 p = Inr cs" "cs \<noteq> []"
    using preset_colors_v2_nonempty by blast
  obtain ms where ms: "apply_materials cs
      (enumerate 0 (map letter_group (create_primitive_text up t sc))) = Inr ms"
    using apply_materials_total [OF cs(2)] by blast
  show ?thesis using ne by (simp add: create_3d_text_v2_def Let_def cs(1) ms)
qed

section \<open>Animation types and poses\<close>

lemma create_3d_text_v2_total:
  "\<exists>res. create_3d_text_v2 up type_meshes t p anim ty sc = Inr res"
proof -
  obtain cs where cs: "preset_colors_v2 p = Inr cs" "cs \<noteq> []"
    using preset_colors_v2_nonempty by blast
  obtain ms1 where ms1: "apply_materials cs
      (enumerate 0 (map letter_group (create_primitive_text up t sc))) = Inr ms1"
    using apply_materials_total [OF cs(2)] by blast
  obtain ms2 where ms2: "apply_materials cs (enumerate 0 type_meshes) = Inr ms2"
    using apply_materials_total [OF cs(2)] by blast
  show ?thesis by (simp add: create_3d_text_v2_def Let_def cs(1) ms1 ms2)
qed

lemma mesh_animation_unknown:
  "ty \<notin> set [''wave'', ''bounce'', ''spin'', ''pop''] \<Longrightarrow> mesh_animation ty i m = []"
  by (simp add: mesh_animation_def Let_def)

lemma add_text_animation_unknown:
  "ty \<notin> set [''wave'', ''bounce'', ''spin'', ''pop''] \<Longrightarrow> add_text_animation meshes ty = []"
  by (simp add: add_text_animation_def mesh_animation_unknown split_def)

lemma letter_animation_unknown:
  "ty \<notin> set [''wave'', ''bounce'', ''spin'', ''pop''] \<Longrightarrow> letter_animation ty sc i grp = []"
  by (simp add: letter_animation_def Let_def)

lemma create_3d_text_v2_keyframes:
  "create_3d_text_v2 up type_meshes t p anim ty sc = Inr res \<Longrightarrow>
   v2_keyframes res = [] \<or> v2_keyframes res = add_text_animation (v2_all_meshes res) ty"
  by (auto simp: create_3d_text_v2_def Let_def split: sum.splits if_splits)

lemma create_3d_text_keyframes:
  "create_3d_text tc a t p per g gi anim ty sc = Inr res \<Longrightarrow>
   keyframes res = [] \<or>
   keyframes res = concat (map (\<lambda>(i, grp). letter_animation ty sc i grp)
                             (enumerate 0 (map letter_grp (letters res))))"
  by (auto simp: create_3d_text_def Let_def split: sum.splits prod.splits if_splits)

lemma create_character_pose:
  "\<exists>m. create_character rnd ct nm sc pos pose h a = Inr m
     \<and> c_arm_pose m = (if pose \<in> set [''wave'', ''zombie''] then pose else ''down'')
     \<and> c_leg_pose m = (if pose = ''walking'' then ''walking'' else ''standing'')"
proof -
  let ?t = "if \<not> py_in ct CHARACTERS then ''steve'' else ct"
  have "py_in ?t CHARACTERS" using steve_in by simp
  then obtain e where e: "map_of CHARACTERS ?t = Some e" by (auto simp: py_in_iff)
  show ?thesis
    unfolding create_character_def Let_def using subscript_Some [OF e]
    by (simp split: prod.splits)
qed

lemma create_character_unknown_pose:
  assumes "pose \<notin> set [''standing'', ''walking'', ''wave'', ''zombie'']"
  shows "create_character rnd ct nm sc pos pose h a
           = create_character rnd ct nm sc pos ''standing'' h a"
  using assms by (simp add: create_character_def Let_def)

lemma rotations_emit:
  "rotations (emit c s) = rotations s @ (case c of Rotate x y z objs \<Rightarrow> [c] | _ \<Rightarrow> [])"
  by (cases c) (simp_all add: rotations_def emit_def)

lemma rotations_create_node_cube:
  "rotations (snd (create_node host (PolyCube w h d) n s)) = rotations s"
  by (simp add: rotations_def create_node_def Let_def)

lemma rotations_create_material:
  "rotations (snd (create_material host n col e s)) = rotations s"
  by (simp add: create_material_def create_node_def Let_def rotations_emit split_def)
     (simp add: rotations_def)

lemma rotations_apply_material: "rotations (apply_material obj sg s) = rotations s"
  by (simp add: apply_material_def rotations_emit)

lemma rotations_arm_side_down:
  "rotations (snd (arm_side host n sc y ''down'' am sm side s)) = rotations s"
  by (simp add: arm_side_def Let_def split_def rotations_emit rotations_create_node_cube
        rotations_apply_material)

lemma rotations_leg_side_standing:
  "rotations (snd (leg_side host n sc ''standing'' pm sm side s)) = rotations s"
  by (simp add: leg_side_def Let_def split_def rotations_emit rotations_create_node_cube
        rotations_apply_material)

lemma standing_rotates_nothing:
  "rotations (snd (create_arms host n cfg sc y ''down'' s)) = rotations s
   \<and> rotations (snd (create_legs host n cfg sc y ''standing'' s)) = rotations s"
  by (simp add: create_arms_def create_legs_def Let_def split_def rotations_arm_side_down
        rotations_leg_side_standing rotations_create_material)

section \<open>Materials by name\<close>



section \<open>Hordes\<close>

lemma horde_position_total:
  "count \<noteq> 0 \<or> formation \<noteq> ''ambush'' \<Longrightarrow> \<exists>p rot. horde_position formation i count r = Inr (p, rot)"
  by (auto simp: horde_position_def Let_def)

lemma horde_loop_total:
  "count \<noteq> 0 \<or> formation \<noteq> ''ambush'' \<Longrightarrow>
   \<exists>mobs. horde_loop rnd r ty count formation is = Inr mobs"
proof (induction "is")
  case Nil
  then show ?case by simp
next
  case (Cons i "is")
  obtain p rot where hp: "horde_position formation i count (r i) = Inr (p, rot)"
    using horde_position_total [OF Cons.prems] by blast
  obtain m where m: "create_character (rnd i) ty None 1.0 p
              (if ty = ''zombie'' then ''zombie'' else ''walking'')
              (if ty = ''skeleton'' then Some ''bow'' else None) None = Inr m"
    using create_character_pose by blast
  from Cons obtain rest where rest: "horde_loop rnd r ty count formation is = Inr rest"
    by blast
  show ?case using hp m rest by (simp add: Let_def)
qed

lemma create_mob_horde_total:
  "\<exists>mobs. create_mob_horde rnd r ty n formation = Inr mobs \<and> length mobs = nat n"
proof (cases "n = 0")
  case True
  then show ?thesis by (simp add: create_mob_horde_def py_range_def)
next
  case False
  then obtain mobs where l: "horde_loop rnd r ty n formation (py_range n) = Inr mobs"
    using horde_loop_total by blast
  from horde_loop_nth [OF l] have "length mobs = nat n" by (simp add: length_py_range)
  with l show ?thesis by (simp add: create_mob_horde_def)
qed

section \<open>Type and preset keys\<close>

text \<open>
  Claim C1, as amended.  A key of the table a builder consults yields that key's entry,
  every other key yields the default entry, and none of the builders raises:
  \<open>create_ship\<close> consults \<open>SHIP_TYPES\<close> (default "xwing"), \<open>create_character\<close>
  consults \<open>CHARACTERS\<close> (default "steve"), \<open>create_starship\<close> consults \<open>SHIP_THEMES\<close>
  for the theme (default "federation"), and \<open>create_3d_text\<close> consults
  \<open>COLOR_PRESETS\<close> (default "rainbow"), in both text scripts.  For the ship class
  \<open>create_starship\<close> consults the list of the three classes it builds, "interceptor",
  "heavy_fighter" and "racer", not the table \<open>SHIP_CLASSES\<close>; every other class, the
  four further keys of \<open>SHIP_CLASSES\<close> included, yields "interceptor".
\<close>

theorem lookup_yields_entry_or_default:
  "(case map_of SHIP_TYPES ship_type of
      Some e \<Rightarrow>
        (\<exists>s. create_ship rnd ship_type nm sc pos = Inr s \<and> ship_type_used s = ship_type
           \<and> used_config s = e \<and> map_of builders ship_type = Some (built_by s))
    | None \<Rightarrow>
        (\<exists>s. create_ship rnd ship_type nm sc pos = Inr s \<and> ship_type_used s = ''xwing''
           \<and> map_of SHIP_TYPES ''xwing'' = Some (used_config s) \<and> built_by s = build_xwing))
   \<and> (case map_of CHARACTERS char_type of
      Some e \<Rightarrow>
        (\<exists>m. create_character rnd char_type nm sc pos pose h a = Inr m
           \<and> c_type m = char_type \<and> c_config m = e)
    | None \<Rightarrow>
        (\<exists>m. create_character rnd char_type nm sc pos pose h a = Inr m
           \<and> c_type m = ''steve'' \<and> map_of CHARACTERS ''steve'' = Some (c_config m)))
   \<and> (case map_of SHIP_THEMES theme of
      Some cs \<Rightarrow>
        (\<exists>s. create_starship n ship_class theme sc anim st = Inr s \<and> theme_used s = theme
           \<and> theme_colors s = cs)
    | None \<Rightarrow>
        (\<exists>s. create_starship n ship_class theme sc anim st = Inr s
           \<and> theme_used s = ''federation''
           \<and> map_of SHIP_THEMES ''federation'' = Some (theme_colors s)))
   \<and> (\<exists>s. create_starship n ship_class theme sc anim st = Inr s
         \<and> (ship_class \<in> set [''interceptor'', ''heavy_fighter'', ''racer'']
              \<longrightarrow> class_used s = ship_class)
         \<and> (ship_class \<notin> set [''interceptor'', ''heavy_fighter'', ''racer'']
              \<longrightarrow> class_used s = ''interceptor'')
         \<and> class_built_by s =
              (if class_used s = ''interceptor'' then v2_build_interceptor
               else if class_used s = ''heavy_fighter'' then v2_build_heavy_fighter
               else v2_build_racer))
   \<and> (case map_of COLOR_PRESETS color_preset of
      Some cs \<Rightarrow> preset_colors color_preset = Inr cs
    | None \<Rightarrow>
        (\<exists>r. map_of COLOR_PRESETS ''rainbow'' = Some r \<and> preset_colors color_preset = Inr r))
   \<and> (case map_of COLOR_PRESETS_v2 color_preset of
      Some cs \<Rightarrow> preset_colors_v2 color_preset = Inr cs
    | None \<Rightarrow>
        (\<exists>r. map_of COLOR_PRESETS_v2 ''rainbow'' = Some r
           \<and> preset_colors_v2 color_preset = Inr r))"
  by (intro conjI create_ship_lookup create_character_lookup create_starship_theme_lookup
        create_starship_class_lookup preset_colors_lookup preset_colors_v2_lookup)

theorem lookup_yields_entry_or_default_witness:
  "map_sum id ship_type_used (create_ship 7 ''tie'' None 1 (0, 0, 0)) = Inr ''tie''
   \<and> map_sum id ship_type_used (create_ship 7 ''deathstar'' None 1 (0, 0, 0)) = Inr ''xwing''
   \<and> map_sum id c_type
        (create_character 7 ''herobrine'' None 1 (0, 0, 0) ''standing'' None None)
        = Inr ''steve''
   \<and> map_sum id theme_used (create_starship ''s'' ''racer'' ''klingon'' 1 False ''hover'')
        = Inr ''federation''
   \<and> map_sum id class_used (create_starship ''s'' ''racer'' ''klingon'' 1 False ''hover'')
        = Inr ''racer''
   \<and> map_sum id class_used (create_starship ''s'' ''shuttle'' ''alien'' 1 False ''hover'')
        = Inr ''interceptor''
   \<and> preset_colors ''plaid'' = preset_colors ''rainbow''
   \<and> preset_colors_v2 ''plaid'' = preset_colors_v2 ''rainbow''"
proof -
  note known = lookup_yields_entry_or_default
    [where ship_type = "''tie''" and rnd = 7 and nm = None and sc = 1 and pos = "(0, 0, 0)"
       and char_type = "''steve''" and pose = "''standing''" and h = None and a = None
       and theme = "''alien''" and n = "''s''" and ship_class = "''shuttle''" and anim = False
       and st = "''hover''" and color_preset = "''rainbow''"]
  note unknown = lookup_yields_entry_or_default
    [where ship_type = "''deathstar''" and rnd = 7 and nm = None and sc = 1
       and pos = "(0, 0, 0)"
       and char_type = "''herobrine''" and pose = "''standing''" and h = None and a = None
       and theme = "''klingon''" and n = "''s''" and ship_class = "''racer''" and anim = False
       and st = "''hover''" and color_preset = "''plaid''"]
  have k1: "map_of SHIP_TYPES ''tie'' \<noteq> None" by (simp add: SHIP_TYPES_def)
  have k2: "map_of SHIP_TYPES ''deathstar'' = None" by (simp add: SHIP_TYPES_def)
  have k3: "map_of CHARACTERS ''herobrine'' = None" by (simp add: CHARACTERS_def)
  have k4: "map_of SHIP_THEMES ''klingon'' = None" by (simp add: SHIP_THEMES_def)
  have k5: "map_of COLOR_PRESETS ''plaid'' = None" by (simp add: COLOR_PRESETS_def)
  have k6: "map_of COLOR_PRESETS_v2 ''plaid'' = None" by (simp add: COLOR_PRESETS_v2_def)
  have k7: "map_of COLOR_PRESETS ''rainbow'' \<noteq> None" by (simp add: COLOR_PRESETS_def)
  have k8: "map_of COLOR_PRESETS_v2 ''rainbow'' \<noteq> None" by (simp add: COLOR_PRESETS_v2_def)
  have a: "map_sum id ship_type_used (create_ship 7 ''tie'' None 1 (0, 0, 0)) = Inr ''tie''"
    using known k1 by auto
  have b: "map_sum id ship_type_used (create_ship 7 ''deathstar'' None 1 (0, 0, 0)) = Inr ''xwing''"
    using unknown k2 by auto
  have c: "map_sum id c_type
        (create_character 7 ''herobrine'' None 1 (0, 0, 0) ''standing'' None None)
        = Inr ''steve''"
    using unknown k3 by auto
  have d: "map_sum id theme_used (create_starship ''s'' ''racer'' ''klingon'' 1 False ''hover'')
        = Inr ''federation''"
    using unknown k4 by auto
  have e: "map_sum id class_used (create_starship ''s'' ''racer'' ''klingon'' 1 False ''hover'')
        = Inr ''racer''"
    using unknown by auto
  have f: "map_sum id class_used (create_starship ''s'' ''shuttle'' ''alien'' 1 False ''hover'')
        = Inr ''interceptor''"
    using known by auto
  have g: "preset_colors ''plaid'' = preset_colors ''rainbow''"
    using known unknown k5 k7 by auto
  have h: "preset_colors_v2 ''plaid'' = preset_colors_v2 ''rainbow''"
    using known unknown k6 k8 by auto
  from a b c d e f g h show ?thesis by blast
qed

text \<open>
  The claim as stated fails for the ship class: "bomber" is a key of the static table
  \<open>SHIP_CLASSES\<close>, and \<open>create_starship\<close> builds an interceptor for it.
\<close>

theorem bomber_class_falls_back:
  "py_in ''bomber'' SHIP_CLASSES
   \<and> map_sum id class_used (create_starship ''s'' ''bomber'' ''federation'' 1 False ''hover'')
       = Inr ''interceptor''"
  by (simp add: py_in_def SHIP_CLASSES_def create_starship_def Let_def SHIP_THEMES_def
        subscript_def)

section \<open>Formation placement\<close>

text \<open>
  Claim C2.  In the line formations the placement of item \<open>i\<close> depends on \<open>i\<close> alone:
  \<open>create_squadron\<close>'s "line" moves it to \<open>(4 i, 0, 0)\<close>, \<open>create_fleet\<close>'s "patrol"
  places it at \<open>(6 i, 0, 0)\<close> and \<open>create_mob_horde\<close>'s "line" at \<open>(2 i, 0, 0)\<close>,
  whatever the count and the random draws; index 2 with spacing 4 gives \<open>x = 8\<close>.  Each
  of the three functions returns, builds as many items as its loop runs, and every item
  \<open>k\<close> it builds is placed so.
\<close>

theorem line_formation_closed_form:
  "squadron_transform ''line'' i count = Inr (Some (real_of_int i * 4, 0, 0), None)
   \<and> fleet_position ''patrol'' i count r = (real_of_int i * 6, 0, 0)
   \<and> horde_position ''line'' i count r' = Inr ((real_of_int i * 2, 0, 0), None)
   \<and> squadron_transform ''line'' 2 count = Inr (Some (8, 0, 0), None)
   \<and> (\<exists>ships. create_squadron n c t ''line'' = Inr ships
         \<and> length ships = nat (min n 12)
         \<and> (\<forall>k<length ships. moved_to (ships ! k) = Some (real k * 4, 0, 0)))
   \<and> (\<exists>fleet. create_fleet rnd rr faction n ''patrol'' = Inr fleet
         \<and> length fleet = nat n
         \<and> (\<forall>k<length fleet. ship_position (fleet ! k) = (real k * 6, 0, 0)))
   \<and> (\<exists>mobs. create_mob_horde rnd rh ty n ''line'' = Inr mobs
         \<and> length mobs = nat n
         \<and> (\<forall>k<length mobs. c_position (mob (mobs ! k)) = (real k * 2, 0, 0)))"
proof (intro conjI)
  show "squadron_transform ''line'' i count = Inr (Some (real_of_int i * 4, 0, 0), None)"
    by (simp add: squadron_transform_def)
  show "fleet_position ''patrol'' i count r = (real_of_int i * 6, 0, 0)"
    by (simp add: fleet_position_def)
  show "horde_position ''line'' i count r' = Inr ((real_of_int i * 2, 0, 0), None)"
    by (simp add: horde_position_def)
  show "squadron_transform ''line'' 2 count = Inr (Some (8, 0, 0), None)"
    by (simp add: squadron_transform_def)
next
  obtain ships where s: "create_squadron n c t ''line'' = Inr ships"
    and len: "length ships = nat (min n 12)"
    using create_squadron_total by blast
  from s have l: "squadron_loop (min n 12) c t ''line'' (py_range (min n 12)) = Inr ships"
    by (simp add: create_squadron_def Let_def)
  have "\<forall>k<length ships. moved_to (ships ! k) = Some (real k * 4, 0, 0)"
  proof (intro allI impI)
    fix k assume "k < length ships"
    with len have k: "k < nat (min n 12)" by simp
    with squadron_loop_nth [OF l] have
      "squadron_transform ''line'' (py_range (min n 12) ! k) (min n 12)
         = Inr (moved_to (ships ! k), rotated_to (ships ! k))"
      by (simp add: length_py_range)
    with k show "moved_to (ships ! k) = Some (real k * 4, 0, 0)"
      by (simp add: nth_py_range squadron_transform_def)
  qed
  with s len show "\<exists>ships. create_squadron n c t ''line'' = Inr ships
         \<and> length ships = nat (min n 12)
         \<and> (\<forall>k<length ships. moved_to (ships ! k) = Some (real k * 4, 0, 0))"
    by blast
next
  obtain fleet where f: "create_fleet rnd rr faction n ''patrol'' = Inr fleet"
    and len: "length fleet = nat n"
    using create_fleet_total by blast
  from f obtain sl where l: "fleet_loop rnd rr sl n ''patrol'' (py_range n) = Inr fleet"
    by (auto simp: create_fleet_def split: sum.splits)
  have "\<forall>k<length fleet. ship_position (fleet ! k) = (real k * 6, 0, 0)"
  proof (intro allI impI)
    fix k assume "k < length fleet"
    with len have k: "k < nat n" by simp
    with fleet_loop_nth [OF l] have
      "ship_position (fleet ! k)
         = fleet_position ''patrol'' (py_range n ! k) n (rr (py_range n ! k))"
      by (simp add: length_py_range)
    with k show "ship_position (fleet ! k) = (real k * 6, 0, 0)"
      by (simp add: nth_py_range fleet_position_def)
  qed
  with f len show "\<exists>fleet. create_fleet rnd rr faction n ''patrol'' = Inr fleet
         \<and> length fleet = nat n
         \<and> (\<forall>k<length fleet. ship_position (fleet ! k) = (real k * 6, 0, 0))"
    by blast
next
  obtain mobs where m: "create_mob_horde rnd rh ty n ''line'' = Inr mobs"
    and len: "length mobs = nat n"
    using create_mob_horde_total by blast
  from m have l: "horde_loop rnd rh ty n ''line'' (py_range n) = Inr mobs"
    by (simp add: create_mob_horde_def)
  have "\<forall>k<length mobs. c_position (mob (mobs ! k)) = (real k * 2, 0, 0)"
  proof (intro allI impI)
    fix k assume "k < length mobs"
    with len have k: "k < nat n" by simp
    with horde_loop_nth [OF l] have
      "horde_position ''line'' (py_range n ! k) n (rh (py_range n ! k))
         = Inr (c_position (mob (mobs ! k)), mob_rotated (mobs ! k))"
      by (simp add: length_py_range)
    with k show "c_position (mob (mobs ! k)) = (real k * 2, 0, 0)"
      by (simp add: nth_py_range horde_position_def)
  qed
  with m len show "\<exists>mobs. create_mob_horde rnd rh ty n ''line'' = Inr mobs
         \<and> length mobs = nat n
         \<and> (\<forall>k<length mobs. c_position (mob (mobs ! k)) = (real k * 2, 0, 0))"
    by blast
qed

theorem line_formation_closed_form_witness:
  "(case create_squadron 3 ''interceptor'' ''federation'' ''line'' of
      Inl e \<Rightarrow> False
    | Inr ships \<Rightarrow> length ships = 3 \<and> moved_to (ships ! 2) = Some (8, 0, 0))
   \<and> (case create_fleet (\<lambda>i. 7) (\<lambda>i. (0, 0, 0)) ''imperial'' 3 ''patrol'' of
      Inl e \<Rightarrow> False
    | Inr fleet \<Rightarrow> length fleet = 3 \<and> ship_position (fleet ! 2) = (12, 0, 0))
   \<and> (case create_mob_horde (\<lambda>i. 7) (\<lambda>i. (0, 0)) ''skeleton'' 3 ''line'' of
      Inl e \<Rightarrow> False
    | Inr mobs \<Rightarrow> length mobs = 3 \<and> c_position (mob (mobs ! 2)) = (4, 0, 0))"
proof -
  note th = line_formation_closed_form
    [where n = 3 and c = "''interceptor''" and t = "''federation''" and rnd = "\<lambda>i. 7"
       and rr = "\<lambda>i. (0, 0, 0)" and faction = "''imperial''" and rh = "\<lambda>i. (0, 0)"
       and ty = "''skeleton''"]
  have two: "(2::nat) < 3" by simp
  from th obtain ships where
    s: "create_squadron 3 ''interceptor'' ''federation'' ''line'' = Inr ships"
    and ls: "length ships = nat (min 3 12)"
    and ps: "\<forall>k<length ships. moved_to (ships ! k) = Some (real k * 4, 0, 0)"
    by blast
  from th obtain fleet where
    f: "create_fleet (\<lambda>i. 7) (\<lambda>i. (0, 0, 0)) ''imperial'' 3 ''patrol'' = Inr fleet"
    and lf: "length fleet = nat 3"
    and pf: "\<forall>k<length fleet. ship_position (fleet ! k) = (real k * 6, 0, 0)"
    by blast
  from th obtain mobs where
    m: "create_mob_horde (\<lambda>i. 7) (\<lambda>i. (0, 0)) ''skeleton'' 3 ''line'' = Inr mobs"
    and lm: "length mobs = nat 3"
    and pm: "\<forall>k<length mobs. c_position (mob (mobs ! k)) = (real k * 2, 0, 0)"
    by blast
  from ls ps have a: "length ships = 3 \<and> moved_to (ships ! 2) = Some (8, 0, 0)" by simp
  from lf pf have b: "length fleet = 3 \<and> ship_position (fleet ! 2) = (12, 0, 0)" by simp
  from lm pm have c: "length mobs = 3 \<and> c_position (mob (mobs ! 2)) = (4, 0, 0)" by simp
  from s f m a b c show ?thesis by simp
qed

text \<open>
  Claim C10.  In the V formations (\<open>create_fleet\<close>'s "attack" and \<open>create_squadron\<close>'s
  "v") item 0 and item 1 are both placed at the origin: item 1 has row \<open>1 // 2 = 0\<close>, so
  both of its offsets are zero.  Hence for every count of at least 2 the first two ships
  built coincide.
\<close>

theorem v_formation_first_two_coincide:
  "fleet_position ''attack'' 0 count r = (0, 0, 0)
   \<and> fleet_position ''attack'' 1 count r = (0, 0, 0)
   \<and> squadron_transform ''v'' 0 count = Inr (Some (0, 0, 0), None)
   \<and> squadron_transform ''v'' 1 count = Inr (Some (0, 0, 0), None)
   \<and> (2 \<le> n \<longrightarrow>
        (\<exists>fleet. create_fleet rnd rr faction n ''attack'' = Inr fleet
           \<and> ship_position (fleet ! 0) = (0, 0, 0) \<and> ship_position (fleet ! 1) = (0, 0, 0))
        \<and> (\<exists>ships. create_squadron n c t ''v'' = Inr ships
           \<and> moved_to (ships ! 0) = Some (0, 0, 0) \<and> moved_to (ships ! 1) = Some (0, 0, 0)))"
proof (intro conjI impI)
  show "fleet_position ''attack'' 0 count r = (0, 0, 0)"
    by (simp add: fleet_position_def)
  show "fleet_position ''attack'' 1 count r = (0, 0, 0)"
    by (simp add: fleet_position_def)
  show "squadron_transform ''v'' 0 count = Inr (Some (0, 0, 0), None)"
    by (simp add: squadron_transform_def)
  show "squadron_transform ''v'' 1 count = Inr (Some (0, 0, 0), None)"
    by (simp add: squadron_transform_def)
next
  assume n: "2 \<le> n"
  obtain fleet where f: "create_fleet rnd rr faction n ''attack'' = Inr fleet"
    and len: "length fleet = nat n"
    using create_fleet_total by blast
  from f obtain sl where l: "fleet_loop rnd rr sl n ''attack'' (py_range n) = Inr fleet"
    by (auto simp: create_fleet_def split: sum.splits)
  from fleet_loop_nth [OF l] have
    p: "\<And>k. k < nat n \<Longrightarrow> ship_position (fleet ! k)
          = fleet_position ''attack'' (py_range n ! k) n (rr (py_range n ! k))"
    by (simp add: length_py_range)
  from n have k: "0 < nat n" "1 < nat n" by simp_all
  have "ship_position (fleet ! 0) = (0, 0, 0)"
    using p [OF k(1)] k(1) by (simp add: nth_py_range fleet_position_def)
  moreover have "ship_position (fleet ! 1) = (0, 0, 0)"
    using p [OF k(2)] k(2) by (simp add: nth_py_range fleet_position_def)
  ultimately show "\<exists>fleet. create_fleet rnd rr faction n ''attack'' = Inr fleet
      \<and> ship_position (fleet ! 0) = (0, 0, 0) \<and> ship_position (fleet ! 1) = (0, 0, 0)"
    using f by blast
next
  assume n: "2 \<le> n"
  obtain ships where s: "create_squadron n c t ''v'' = Inr ships"
    and len: "length ships = nat (min n 12)"
    using create_squadron_total by blast
  from s have l: "squadron_loop (min n 12) c t ''v'' (py_range (min n 12)) = Inr ships"
    by (simp add: create_squadron_def Let_def)
  from squadron_loop_nth [OF l] have
    p: "\<And>k. k < nat (min n 12) \<Longrightarrow>
          squadron_transform ''v'' (py_range (min n 12) ! k) (min n 12)
            = Inr (moved_to (ships ! k), rotated_to (ships ! k))"
    by (simp add: length_py_range)
  from n have k: "0 < nat (min n 12)" "1 < nat (min n 12)" by simp_all
  have "moved_to (ships ! 0) = Some (0, 0, 0)"
    using p [OF k(1)] k(1) by (simp add: nth_py_range squadron_transform_def)
  moreover have "moved_to (ships ! 1) = Some (0, 0, 0)"
    using p [OF k(2)] k(2) by (simp add: nth_py_range squadron_transform_def)
  ultimately show "\<exists>ships. create_squadron n c t ''v'' = Inr ships
      \<and> moved_to (ships ! 0) = Some (0, 0, 0) \<and> moved_to (ships ! 1) = Some (0, 0, 0)"
    using s by blast
qed

theorem v_formation_first_two_coincide_witness:
  "(case create_fleet (\<lambda>i. 7) (\<lambda>i. (0, 0, 0)) ''rebel'' 5 ''attack'' of
      Inl e \<Rightarrow> False
    | Inr fleet \<Rightarrow> ship_position (fleet ! 0) = (0, 0, 0) \<and> ship_position (fleet ! 1) = (0, 0, 0))
   \<and> (case create_squadron 5 ''interceptor'' ''federation'' ''v'' of
      Inl e \<Rightarrow> False
    | Inr ships \<Rightarrow> moved_to (ships ! 0) = Some (0, 0, 0) \<and> moved_to (ships ! 1) = Some (0, 0, 0))"
proof -
  have n: "(2::int) \<le> 5" by simp
  from v_formation_first_two_coincide
    [of 5 "(0, 0, 0)" 5 "\<lambda>i. 7" "\<lambda>i. (0, 0, 0)" "''rebel''" "''interceptor''"
        "''federation''"] n
  have a: "\<exists>fleet. create_fleet (\<lambda>i. 7) (\<lambda>i. (0, 0, 0)) ''rebel'' 5 ''attack'' = Inr fleet
           \<and> ship_position (fleet ! 0) = (0, 0, 0) \<and> ship_position (fleet ! 1) = (0, 0, 0)"
    and b: "\<exists>ships. create_squadron 5 ''interceptor'' ''federation'' ''v'' = Inr ships
           \<and> moved_to (ships ! 0) = Some (0, 0, 0) \<and> moved_to (ships ! 1) = Some (0, 0, 0)"
    by blast+
  from a b show ?thesis by auto
qed

text \<open>
  Claim C3, as amended.  \<open>create_squadron\<close>'s "diamond" places item \<open>i\<close> at angle
  \<open>360 i / count\<close> on the circle of radius 5, for every \<open>count > 0\<close> and every
  \<open>0 \<le> i < count\<close>; the ships \<open>create_squadron\<close> returns are \<open>min(count, 12)\<close> in number
  and are placed with that number as the count.  Index 1 of 4 is at angle 90, the point
  \<open>circle_point 5 90\<close>, which is approximately \<open>(x, z) = (0, 5)\<close>: each coordinate is
  within \<open>1 / 10 ^ 9\<close> of it.  \<open>create_fleet\<close>'s "escort" is a different layout: item 0 is at the
  origin and item \<open>i > 0\<close> is at angle \<open>360 (i - 1) / (count - 1)\<close> on the circle of
  radius 8; the fleet returned has \<open>count\<close> ships placed so.
\<close>

theorem diamond_formation_closed_form:
  "(0 \<le> i \<and> i < count \<longrightarrow>
      squadron_transform ''diamond'' i count
        = Inr (Some (circle_point 5 (360 * real_of_int i / real_of_int count)),
               Some (0, - (360 * real_of_int i / real_of_int count) + 90, 0)))
   \<and> (\<exists>ships. create_squadron n c t ''diamond'' = Inr ships
         \<and> length ships = nat (min n 12)
         \<and> (\<forall>k<length ships.
               moved_to (ships ! k)
                 = Some (circle_point 5 (360 * real k / real_of_int (min n 12)))))
   \<and> (\<exists>x z. squadron_transform ''diamond'' 1 4 = Inr (Some (x, 0, z), Some (0, 0, 0))
         \<and> (x, 0, z) = circle_point 5 90
         \<and> \<bar>x - 0\<bar> < 1 / 10 ^ 9 \<and> \<bar>z - 5\<bar> < 1 / 10 ^ 9)
   \<and> fleet_position ''escort'' 0 count r = (0, 0, 0)
   \<and> (0 < i \<and> i < count \<longrightarrow>
        fleet_position ''escort'' i count r
          = circle_point 8 (360 * real_of_int (i - 1) / real_of_int (count - 1)))
   \<and> (\<exists>fleet. create_fleet rnd rr faction count ''escort'' = Inr fleet
         \<and> length fleet = nat count
         \<and> (\<forall>k<length fleet.
               ship_position (fleet ! k)
                 = (if k = 0 then (0, 0, 0)
                    else circle_point 8 (360 * (real k - 1) / real_of_int (count - 1)))))"
proof (intro conjI impI)
  assume "0 \<le> i \<and> i < count"
  then show "squadron_transform ''diamond'' i count
        = Inr (Some (circle_point 5 (360 * real_of_int i / real_of_int count)),
               Some (0, - (360 * real_of_int i / real_of_int count) + 90, 0))"
    by (auto simp: squadron_transform_def Let_def circle_point_def mult.commute)
next
  obtain ships where s: "create_squadron n c t ''diamond'' = Inr ships"
    and len: "length ships = nat (min n 12)"
    using create_squadron_total by blast
  from s have l: "squadron_loop (min n 12) c t ''diamond'' (py_range (min n 12)) = Inr ships"
    by (simp add: create_squadron_def Let_def)
  have "\<forall>k<length ships. moved_to (ships ! k)
          = Some (circle_point 5 (360 * real k / real_of_int (min n 12)))"
  proof (intro allI impI)
    fix k assume "k < length ships"
    with len have k: "k < nat (min n 12)" by simp
    with squadron_loop_nth [OF l] have
      tr: "squadron_transform ''diamond'' (py_range (min n 12) ! k) (min n 12)
               = Inr (moved_to (ships ! k), rotated_to (ships ! k))"
      by (simp add: length_py_range)
    from k have "min n 12 \<noteq> 0" by auto
    with tr k show "moved_to (ships ! k)
        = Some (circle_point 5 (360 * real k / real_of_int (min n 12)))"
      by (simp add: nth_py_range squadron_transform_def Let_def circle_point_def mult.commute)
  qed
  with s len show "\<exists>ships. create_squadron n c t ''diamond'' = Inr ships
         \<and> length ships = nat (min n 12)
         \<and> (\<forall>k<length ships.
               moved_to (ships ! k)
                 = Some (circle_point 5 (360 * real k / real_of_int (min n 12))))"
    by blast
next
  have "squadron_transform ''diamond'' 1 4 = Inr (Some (0, 0, 5), Some (0, 0, 0))"
    by (simp add: squadron_transform_def Let_def radians_def)
  moreover have "(0, 0, 5) = circle_point 5 90"
    by (simp add: circle_point_def radians_def)
  ultimately show "\<exists>x z. squadron_transform ''diamond'' 1 4
             = Inr (Some (x, 0, z), Some (0, 0, 0))
         \<and> (x, 0, z) = circle_point 5 90
         \<and> \<bar>x - 0\<bar> < 1 / 10 ^ 9 \<and> \<bar>z - 5\<bar> < 1 / 10 ^ 9"
    by (intro exI [of _ 0] exI [of _ 5]) simp
next
  show "fleet_position ''escort'' 0 count r = (0, 0, 0)"
    by (simp add: fleet_position_def)
next
  assume "0 < i \<and> i < count"
  then show "fleet_position ''escort'' i count r
          = circle_point 8 (360 * real_of_int (i - 1) / real_of_int (count - 1))"
    by (simp add: fleet_position_def Let_def circle_point_def mult.commute)
next
  obtain fleet where f: "create_fleet rnd rr faction count ''escort'' = Inr fleet"
    and len: "length fleet = nat count"
    using create_fleet_total by blast
  from f obtain sl where l: "fleet_loop rnd rr sl count ''escort'' (py_range count) = Inr fleet"
    by (auto simp: create_fleet_def split: sum.splits)
  have "\<forall>k<length fleet. ship_position (fleet ! k)
          = (if k = 0 then (0, 0, 0)
             else circle_point 8 (360 * (real k - 1) / real_of_int (count - 1)))"
  proof (intro allI impI)
    fix k assume "k < length fleet"
    with len have k: "k < nat count" by simp
    with fleet_loop_nth [OF l] have
      p: "ship_position (fleet ! k)
              = fleet_position ''escort'' (py_range count ! k) count (rr (py_range count ! k))"
      by (simp add: length_py_range)
    from k have c: "k = 0 \<or> 1 < count" by auto
    from p k c show "ship_position (fleet ! k)
          = (if k = 0 then (0, 0, 0)
             else circle_point 8 (360 * (real k - 1) / real_of_int (count - 1)))"
      by (auto simp: nth_py_range fleet_position_def Let_def circle_point_def mult.commute)
  qed
  with f len show "\<exists>fleet. create_fleet rnd rr faction count ''escort'' = Inr fleet
         \<and> length fleet = nat count
         \<and> (\<forall>k<length fleet.
               ship_position (fleet ! k)
                 = (if k = 0 then (0, 0, 0)
                    else circle_point 8 (360 * (real k - 1) / real_of_int (count - 1))))"
    by blast
qed

theorem diamond_formation_closed_form_witness:
  "squadron_transform ''diamond'' 1 4 = Inr (Some (circle_point 5 90), Some (0, 0, 0))
   \<and> fleet_position ''escort'' 2 5 (0, 0, 0) = circle_point 8 90
   \<and> (case create_squadron 4 ''racer'' ''alien'' ''diamond'' of
        Inl e \<Rightarrow> False
      | Inr ships \<Rightarrow> length ships = 4 \<and> moved_to (ships ! 1) = Some (circle_point 5 90))
   \<and> (case create_fleet (\<lambda>i. 7) (\<lambda>i. (0, 0, 0)) ''imperial'' 5 ''escort'' of
        Inl e \<Rightarrow> False
      | Inr fleet \<Rightarrow> length fleet = 5 \<and> ship_position (fleet ! 0) = (0, 0, 0)
                     \<and> ship_position (fleet ! 2) = circle_point 8 90)"
proof -
  note sq = diamond_formation_closed_form
    [where i = 1 and n = 4 and c = "''racer''" and t = "''alien''" and count = 4
       and r = "(0, 0, 0)" and rnd = "\<lambda>i. 7" and rr = "\<lambda>i. (0, 0, 0)"
       and faction = "''imperial''"]
  note fl = diamond_formation_closed_form
    [where i = 2 and n = 4 and c = "''racer''" and t = "''alien''" and count = 5
       and r = "(0, 0, 0)" and rnd = "\<lambda>i. 7" and rr = "\<lambda>i. (0, 0, 0)"
       and faction = "''imperial''"]
  have a: "squadron_transform ''diamond'' 1 4
             = Inr (Some (circle_point 5 90), Some (0, 0, 0))"
    using sq by simp
  have b: "fleet_position ''escort'' 2 5 (0, 0, 0) = circle_point 8 90"
    using fl by simp
  from sq obtain ships where
    s: "create_squadron 4 ''racer'' ''alien'' ''diamond'' = Inr ships"
    and ls: "length ships = nat (min 4 12)"
    and ps: "\<forall>k<length ships. moved_to (ships ! k)
               = Some (circle_point 5 (360 * real k / real_of_int (min 4 12)))"
    by blast
  from fl obtain fleet where
    f: "create_fleet (\<lambda>i. 7) (\<lambda>i. (0, 0, 0)) ''imperial'' 5 ''escort'' = Inr fleet"
    and lf: "length fleet = nat 5"
    and pf: "\<forall>k<length fleet. ship_position (fleet ! k)
               = (if k = 0 then (0, 0, 0)
                  else circle_point 8 (360 * (real k - 1) / real_of_int (5 - 1)))"
    by blast
  from ls ps have c: "length ships = 4 \<and> moved_to (ships ! 1) = Some (circle_point 5 90)"
    by simp
  from lf pf have d: "length fleet = 5 \<and> ship_position (fleet ! 0) = (0, 0, 0)
      \<and> ship_position (fleet ! 2) = circle_point 8 90"
    by simp
  from a b c d s f show ?thesis by simp
qed

text \<open>
  The claim as stated fails for the escort formation: with 4 ships, item 1 is at angle 0,
  the point \<open>(8, 0, 0)\<close>, not at angle \<open>360 * 1 / 4 = 90\<close>, the point \<open>(0, 0, 8)\<close>.
\<close>

theorem escort_not_on_claimed_circle:
  "fleet_position ''escort'' 1 4 (0, 0, 0) = (8, 0, 0)
   \<and> circle_point 8 (360 * 1 / 4) = (0, 0, 8)
   \<and> fleet_position ''escort'' 1 4 (0, 0, 0) \<noteq> circle_point 8 (360 * 1 / 4)"
  by (simp add: fleet_position_def Let_def circle_point_def radians_def)

section \<open>Squadron size\<close>

text \<open>
  Claim C9, as amended.  \<open>create_squadron\<close> always returns, and builds
  \<open>min(count, 12)\<close> ships for every count that is not negative: exactly 12 for a count
  above 12, none for a count of 0.  A negative count builds no ships either.
\<close>

theorem squadron_size:
  "\<exists>ships. create_squadron count c t f = Inr ships
     \<and> length ships = nat (min count 12)
     \<and> (0 \<le> count \<longrightarrow> int (length ships) = min count 12)
     \<and> (12 < count \<longrightarrow> length ships = 12)
     \<and> (count \<le> 0 \<longrightarrow> ships = [])"
proof -
  obtain ships where s: "create_squadron count c t f = Inr ships"
    and l: "length ships = nat (min count 12)"
    using create_squadron_total by blast
  from l have "0 \<le> count \<longrightarrow> int (length ships) = min count 12" by simp
  moreover from l have "12 < count \<longrightarrow> length ships = 12" by simp
  moreover from l have "count \<le> 0 \<longrightarrow> ships = []" by auto
  ultimately show ?thesis using s l by blast
qed

theorem squadron_size_witness:
  "(case create_squadron 20 ''racer'' ''empire'' ''echelon'' of
      Inl e \<Rightarrow> False | Inr ships \<Rightarrow> length ships = 12)
   \<and> (case create_squadron 5 ''racer'' ''empire'' ''echelon'' of
      Inl e \<Rightarrow> False | Inr ships \<Rightarrow> length ships = 5)
   \<and> create_squadron 0 ''racer'' ''empire'' ''echelon'' = Inr []"
proof -
  from squadron_size [of 20 "''racer''" "''empire''" "''echelon''"]
  have a: "case create_squadron 20 ''racer'' ''empire'' ''echelon'' of
      Inl e \<Rightarrow> False | Inr ships \<Rightarrow> length ships = 12" by auto
  from squadron_size [of 5 "''racer''" "''empire''" "''echelon''"]
  have b: "case create_squadron 5 ''racer'' ''empire'' ''echelon'' of
      Inl e \<Rightarrow> False | Inr ships \<Rightarrow> length ships = 5" by auto
  from squadron_size [of 0 "''racer''" "''empire''" "''echelon''"]
  have c: "create_squadron 0 ''racer'' ''empire'' ''echelon'' = Inr []" by auto
  from a b c show ?thesis by blast
qed

text \<open>
  The claim as stated fails for a negative count: \<open>min(-1, 12) = -1\<close>, and no ships
  are built.
\<close>

theorem squadron_negative_count:
  "create_squadron (- 1) ''interceptor'' ''federation'' ''v'' = Inr []
   \<and> int (length ([] :: squadron_ship list)) \<noteq> min (- 1) 12"
  by (simp add: create_squadron_def py_range_def)

section \<open>Letter colours\<close>

text \<open>
  Claim C4.  In \<open>create_3d_text\<close> of fancy\_3d\_text.py the palette selected is never
  empty; with \<open>per_letter_colors\<close> off the material colour is the first palette entry
  whatever the index, and with it on the colour for index \<open>i\<close> is entry
  \<open>i % len(palette)\<close>.  Every letter the function produces, made from the character at
  index \<open>j\<close> of the text, carries the colour so chosen for \<open>j\<close>.  The "rainbow" palette
  has 7 entries, so index 7 wraps to entry 0.
\<close>

theorem material_color_selection:
  "(\<exists>cs. preset_colors color_preset = Inr cs \<and> cs \<noteq> []
     \<and> material_color cs False i = Inr (cs ! 0)
     \<and> material_color cs True i = Inr (cs ! (i mod length cs))
     \<and> (create_3d_text tc a words color_preset per g gi anim ty sc = Inr res
          \<and> l \<in> set (letters res) \<longrightarrow>
          (\<exists>j<length words.
             letter_mesh l = ''letter_'' @ [words ! j] @ ''_'' @ str_nat j @ ''_mesh''
             \<and> letter_color l = (if per then cs ! (j mod length cs) else cs ! 0))))
   \<and> (\<exists>rainbow. preset_colors ''rainbow'' = Inr rainbow \<and> length rainbow = 7
          \<and> material_color rainbow True 7 = Inr (rainbow ! 0))"
proof -
  obtain cs where cs: "preset_colors color_preset = Inr cs" "cs \<noteq> []"
    using preset_colors_nonempty by blast
  have m: "\<And>b k. material_color cs b k = Inr (if b then cs ! (k mod length cs) else cs ! 0)"
    using cs(2) by (rule material_color_nonempty)
  have loop: "create_3d_text tc a words color_preset per g gi anim ty sc = Inr res
          \<and> l \<in> set (letters res) \<longrightarrow>
          (\<exists>j<length words.
             letter_mesh l = ''letter_'' @ [words ! j] @ ''_'' @ str_nat j @ ''_mesh''
             \<and> letter_color l = (if per then cs ! (j mod length cs) else cs ! 0))"
  proof
    assume h: "create_3d_text tc a words color_preset per g gi anim ty sc = Inr res
          \<and> l \<in> set (letters res)"
    from create_3d_text_letters [of tc a words color_preset per g gi anim ty sc res] h cs(1)
    obtain ws where
      lp: "letters_loop tc a cs per g gi (enumerate 0 words) = Inr (letters res, ws)"
      by auto
    from letters_loop_letter [OF lp] h obtain j c where
      jc: "(j, c) \<in> set (enumerate 0 words)"
      and nm: "letter_mesh l = ''letter_'' @ [c] @ ''_'' @ str_nat j @ ''_mesh''"
      and col: "material_color cs per j = Inr (letter_color l)" by blast
    from jc have j: "j < length words" and c: "c = words ! j"
      by (auto simp: in_set_enumerate_eq)
    from col m [of per j] have "letter_color l = (if per then cs ! (j mod length cs) else cs ! 0)"
      by simp
    with j c nm show "\<exists>j<length words.
             letter_mesh l = ''letter_'' @ [words ! j] @ ''_'' @ str_nat j @ ''_mesh''
             \<and> letter_color l = (if per then cs ! (j mod length cs) else cs ! 0)"
      by blast
  qed
  have rb: "\<exists>rainbow. preset_colors ''rainbow'' = Inr rainbow \<and> length rainbow = 7
          \<and> material_color rainbow True 7 = Inr (rainbow ! 0)"
    by (simp add: preset_colors_def subscript_def dict_get_def COLOR_PRESETS_def
          material_color_def)
  from m [of False i] have mF: "material_color cs False i = Inr (cs ! 0)" by simp
  from m [of True i] have mT: "material_color cs True i = Inr (cs ! (i mod length cs))"
    by simp
  from cs(1) cs(2) mF mT loop have
    "\<exists>cs. preset_colors color_preset = Inr cs \<and> cs \<noteq> []
     \<and> material_color cs False i = Inr (cs ! 0)
     \<and> material_color cs True i = Inr (cs ! (i mod length cs))
     \<and> (create_3d_text tc a words color_preset per g gi anim ty sc = Inr res
          \<and> l \<in> set (letters res) \<longrightarrow>
          (\<exists>j<length words.
             letter_mesh l = ''letter_'' @ [words ! j] @ ''_'' @ str_nat j @ ''_mesh''
             \<and> letter_color l = (if per then cs ! (j mod length cs) else cs ! 0)))"
    by (intro exI [of _ cs] conjI) assumption+
  with rb show ?thesis by (rule conjI [rotated])
qed


theorem material_color_selection_witness:
  "map_sum id (\<lambda>res. map letter_color (letters res))
     (create_3d_text (\<lambda>i c. Curves [Extruded]) True ''HI'' ''fire'' True True 0.3 False
        ''wave'' 1)
     = Inr [(1.0, 0.9, 0.0), (1.0, 0.6, 0.0)]
   \<and> (case preset_colors ''fire'' of
        Inl e \<Rightarrow> False
      | Inr cs \<Rightarrow> material_color cs False 5 = Inr (1.0, 0.9, 0.0)
                 \<and> material_color cs True 5 = Inr (1.0, 0.6, 0.0))"
proof -
  let ?tc = "\<lambda>(i::nat) (c::char). Curves [Extruded]"
  let ?l0 = "\<lparr>letter_mesh = ''letter_H_0_mesh'', letter_grp = ''letter_H_0_grp'',
               letter_color = (1.0, 0.9, 0.0), letter_glow = 0.3,
               letter_shader = ''aiStandardSurface''\<rparr>"
  let ?l1 = "\<lparr>letter_mesh = ''letter_I_1_mesh'', letter_grp = ''letter_I_1_grp'',
               letter_color = (1.0, 0.6, 0.0), letter_glow = 0.3,
               letter_shader = ''aiStandardSurface''\<rparr>"
  let ?res = "\<lparr>main_group = Some ''text_HI_grp'',
                letter_meshes = [''letter_H_0_mesh'', ''letter_I_1_mesh''],
                letters = [?l0, ?l1], keyframes = [], warnings = []\<rparr>"
  have fire: "preset_colors ''fire''
                = Inr [(1.0, 0.9, 0.0), (1.0, 0.6, 0.0), (1.0, 0.2, 0.0), (0.8, 0.0, 0.0)]"
    by (simp add: preset_colors_def subscript_def dict_get_def COLOR_PRESETS_def)
  have ev: "create_3d_text ?tc True ''HI'' ''fire'' True True 0.3 False ''wave'' 1 = Inr ?res"
    by (simp add: create_3d_text_def fire letter_step_def material_color_def
          replace_spaces_def str_nat.simps Let_def)
  note th = material_color_selection
    [where color_preset = "''fire''" and i = 5 and tc = ?tc and a = True and words = "''HI''"
       and per = True and g = True and gi = "0.3" and anim = False and ty = "''wave''"
       and sc = 1 and res = ?res and l = ?l1]
  from th ev fire obtain j where j: "j < length ''HI''"
    and nm: "letter_mesh ?l1 = ''letter_'' @ [''HI'' ! j] @ ''_'' @ str_nat j @ ''_mesh''"
    and col: "letter_color ?l1
        = [(1.0, 0.9, 0.0), (1.0, 0.6, 0.0), (1.0, 0.2, 0.0), (0.8, 0.0, 0.0)] ! (j mod 4)"
    and mF: "material_color [(1.0, 0.9, 0.0), (1.0, 0.6, 0.0), (1.0, 0.2, 0.0), (0.8, 0.0, 0.0)]
               False 5 = Inr (1.0, 0.9, 0.0)"
    and mT: "material_color [(1.0, 0.9, 0.0), (1.0, 0.6, 0.0), (1.0, 0.2, 0.0), (0.8, 0.0, 0.0)]
               True 5 = Inr (1.0, 0.6, 0.0)"
    by auto
  from ev fire mF mT show ?thesis by simp
qed

section \<open>A letter that fails\<close>

text \<open>
  Claim C7.  In \<open>create_3d_text\<close> of fancy\_3d\_text.py, when \<open>cmds.textCurves\<close> raises
  for one character, the exception is caught in that iteration, a warning is printed
  and the character is skipped: the loop over the whole text yields exactly the letters
  and warnings of the characters before it and after it, with the warning for the
  failing character in between.  The build does not abort: the function returns, the
  warning is among those printed, and every other character for which the host yields an
  extruded mesh has its mesh in the result, which then has a main group.
\<close>

theorem failing_letter_is_skipped:
  assumes "textCurves (length pre) c = Raises" and "c \<noteq> CHR '' ''"
  shows
    "letters_loop textCurves a cs per g gi (enumerate 0 (pre @ c # post)) =
       (case letters_loop textCurves a cs per g gi (enumerate 0 pre) of
          Inl e \<Rightarrow> Inl e
        | Inr (l1, w1) \<Rightarrow>
            (case letters_loop textCurves a cs per g gi (enumerate (Suc (length pre)) post) of
               Inl e \<Rightarrow> Inl e
             | Inr (l2, w2) \<Rightarrow> Inr (l1 @ l2, w1 @ CouldNotCreateLetter c # w2)))
     \<and> (\<exists>res. create_3d_text textCurves a (pre @ c # post) p per g gi anim ty sc = Inr res
           \<and> CouldNotCreateLetter c \<in> set (warnings res)
           \<and> (\<forall>j cv. j < length (pre @ c # post) \<and> (pre @ c # post) ! j \<noteq> CHR '' ''
                  \<and> textCurves j ((pre @ c # post) ! j) = Curves cv \<and> Extruded \<in> set cv
                \<longrightarrow> main_group res \<noteq> None
                  \<and> ''letter_'' @ [(pre @ c # post) ! j] @ ''_'' @ str_nat j @ ''_mesh''
                       \<in> set (letter_meshes res)))"
proof (rule conjI)
  have e: "enumerate 0 (pre @ c # post)
        = enumerate 0 pre @ (length pre, c) # enumerate (Suc (length pre)) post"
    by (simp add: enumerate_append_eq)
  have st: "letter_step textCurves a cs per g gi (length pre, c)
        = Inr ([], [CouldNotCreateLetter c])"
    using assms by (rule letter_step_raises)
  show "letters_loop textCurves a cs per g gi (enumerate 0 (pre @ c # post)) =
       (case letters_loop textCurves a cs per g gi (enumerate 0 pre) of
          Inl e \<Rightarrow> Inl e
        | Inr (l1, w1) \<Rightarrow>
            (case letters_loop textCurves a cs per g gi (enumerate (Suc (length pre)) post) of
               Inl e \<Rightarrow> Inl e
             | Inr (l2, w2) \<Rightarrow> Inr (l1 @ l2, w1 @ CouldNotCreateLetter c # w2)))"
    unfolding e letters_loop_append by (simp add: st split: sum.splits prod.splits)
next
  let ?t = "pre @ c # post"
  obtain res where res: "create_3d_text textCurves a ?t p per g gi anim ty sc = Inr res"
    using create_3d_text_total by blast
  from create_3d_text_letters [OF res] obtain pal ws where
    lp: "letters_loop textCurves a pal per g gi (enumerate 0 ?t) = Inr (letters res, ws)"
    and w: "warnings res = ws"
    and lm: "letter_meshes res = map letter_mesh (letters res)"
    and mg: "main_group res = None \<longleftrightarrow> letters res = []"
    by (elim exE conjE)
  have e: "enumerate 0 ?t
        = enumerate 0 pre @ (length pre, c) # enumerate (Suc (length pre)) post"
    by (simp add: enumerate_append_eq)
  have st: "letter_step textCurves a pal per g gi (length pre, c)
        = Inr ([], [CouldNotCreateLetter c])"
    using assms by (rule letter_step_raises)
  from lp have "CouldNotCreateLetter c \<in> set ws"
    unfolding e letters_loop_append by (auto simp: st split: sum.splits prod.splits)
  with w have warn: "CouldNotCreateLetter c \<in> set (warnings res)" by simp
  have others: "\<forall>j cv. j < length ?t \<and> ?t ! j \<noteq> CHR '' ''
                  \<and> textCurves j (?t ! j) = Curves cv \<and> Extruded \<in> set cv
                \<longrightarrow> main_group res \<noteq> None
                  \<and> ''letter_'' @ [?t ! j] @ ''_'' @ str_nat j @ ''_mesh''
                       \<in> set (letter_meshes res)"
  proof (intro allI impI)
    fix j cv
    assume h: "j < length ?t \<and> ?t ! j \<noteq> CHR '' ''
                  \<and> textCurves j (?t ! j) = Curves cv \<and> Extruded \<in> set cv"
    then have "(j, ?t ! j) \<in> set (enumerate 0 ?t)" by (simp add: in_set_enumerate_eq)
    from letters_loop_mesh [OF lp this] h obtain l where
      l: "l \<in> set (letters res)"
        "letter_mesh l = ''letter_'' @ [?t ! j] @ ''_'' @ str_nat j @ ''_mesh''"
      by blast
    from l(1) mg have "main_group res \<noteq> None" by auto
    moreover from l lm have
      "''letter_'' @ [?t ! j] @ ''_'' @ str_nat j @ ''_mesh'' \<in> set (letter_meshes res)"
      by force
    ultimately show "main_group res \<noteq> None
        \<and> ''letter_'' @ [?t ! j] @ ''_'' @ str_nat j @ ''_mesh'' \<in> set (letter_meshes res)"
      by simp
  qed
  from res warn others show "\<exists>res. create_3d_text textCurves a ?t p per g gi anim ty sc = Inr res
           \<and> CouldNotCreateLetter c \<in> set (warnings res)
           \<and> (\<forall>j cv. j < length ?t \<and> ?t ! j \<noteq> CHR '' ''
                  \<and> textCurves j (?t ! j) = Curves cv \<and> Extruded \<in> set cv
                \<longrightarrow> main_group res \<noteq> None
                  \<and> ''letter_'' @ [?t ! j] @ ''_'' @ str_nat j @ ''_mesh''
                       \<in> set (letter_meshes res))"
    by blast
qed

theorem failing_letter_is_skipped_witness:
  "map_sum id (\<lambda>res. (main_group res, letter_meshes res, warnings res))
     (create_3d_text (\<lambda>i c. if i = 1 then Raises else Curves [Extruded]) False ''ABC''
        ''neon'' True False 0.3 False ''wave'' 1)
     = Inr (Some ''text_ABC_grp'', [''letter_A_0_mesh'', ''letter_C_2_mesh''],
            [CouldNotCreateLetter CHR ''B''])"
proof -
  let ?tc = "\<lambda>(i::nat) (c::char). if i = 1 then Raises else Curves [Extruded]"
  have r: "?tc (length ''A'') CHR ''B'' = Raises" by simp
  have b: "CHR ''B'' \<noteq> CHR '' ''" by simp
  note th = failing_letter_is_skipped
    [where textCurves = ?tc and pre = "''A''" and c = "CHR ''B''" and post = "''C''"
       and a = False and p = "''neon''" and per = True and g = False and gi = "0.3"
       and anim = False and ty = "''wave''" and sc = 1, OF r b]
  from th obtain res where
    res: "create_3d_text ?tc False (''A'' @ CHR ''B'' # ''C'') ''neon'' True False 0.3 False
            ''wave'' 1 = Inr res"
    and w: "CouldNotCreateLetter CHR ''B'' \<in> set (warnings res)" by blast
  have ev: "map_sum id (\<lambda>res. (main_group res, letter_meshes res, warnings res))
     (create_3d_text ?tc False ''ABC'' ''neon'' True False 0.3 False ''wave'' 1)
     = Inr (Some ''text_ABC_grp'', [''letter_A_0_mesh'', ''letter_C_2_mesh''],
            [CouldNotCreateLetter CHR ''B''])"
    by (simp add: create_3d_text_def preset_colors_def subscript_def dict_get_def
          COLOR_PRESETS_def letter_step_def material_color_def replace_spaces_def
          str_nat.simps Let_def)
  from ev res w show ?thesis by simp
qed

section \<open>The primitive fallback\<close>

text \<open>
  Claim C6.  In \<open>create_3d_text\<close> of fancy\_3d\_text\_v2.py, when the Type-tool block
  leaves no meshes, \<open>create_primitive_text\<close> is called.  It makes one letter group for
  every character of the upper-cased text that is not a space (for a text of ASCII
  characters: one for every character of the text that is not a space), each with at
  least one cube; a character with no entry in \<open>letter_patterns\<close> gets the single cube
  of the pattern \<open>[(1, 1)]\<close>.  Upper-casing maps no character other than a space to
  nothing or to spaces only.  So for a text with a character that is not a space the
  fallback yields meshes and the call returns a group, not \<open>None\<close>.
\<close>

theorem primitive_fallback_succeeds:
  "length (create_primitive_text up t sc) = length (filter (\<lambda>c. c \<noteq> CHR '' '') (upper up t))
   \<and> ((\<forall>c \<in> set t. up c = ascii_upper c) \<longrightarrow>
        length (create_primitive_text up t sc) = length (filter (\<lambda>c. c \<noteq> CHR '' '') t))
   \<and> (\<forall>l \<in> set (create_primitive_text up t sc). cubes l \<noteq> [])
   \<and> (c \<noteq> CHR '' '' \<and> map_of letter_patterns c = None
        \<longrightarrow> map (\<lambda>l. length (cubes l)) (primitive_loop sc x [c]) = [1])
   \<and> ((\<forall>c. c \<noteq> CHR '' '' \<longrightarrow> (\<exists>d \<in> set (up c). d \<noteq> CHR '' ''))
        \<and> (\<exists>c \<in> set t. c \<noteq> CHR '' '') \<longrightarrow>
        create_primitive_text up t sc \<noteq> []
        \<and> (\<exists>res. create_3d_text_v2 up [] t p anim ty sc = Inr res
              \<and> v2_main_group res = Some (''fancy_text_'' @ replace_spaces t @ ''_grp'')
              \<and> v2_fallback res = create_primitive_text up t sc
              \<and> v2_all_meshes res = map letter_group (create_primitive_text up t sc)
              \<and> v2_all_meshes res \<noteq> []))"
proof (intro conjI impI ballI)
  show len: "length (create_primitive_text up t sc)
      = length (filter (\<lambda>c. c \<noteq> CHR '' '') (upper up t))"
    by (simp add: create_primitive_text_def primitive_loop_length)
  {
    assume "\<forall>c \<in> set t. up c = ascii_upper c"
    then have "upper up t = map upper_char t" by (rule upper_ascii)
    with len filter_upper_char [of t]
    show "length (create_primitive_text up t sc)
        = length (filter (\<lambda>c. c \<noteq> CHR '' '') t)"
      by simp
  }
  {
    assume a: "(\<forall>c. c \<noteq> CHR '' '' \<longrightarrow> (\<exists>d \<in> set (up c). d \<noteq> CHR '' ''))
        \<and> (\<exists>c \<in> set t. c \<noteq> CHR '' '')"
    then have "\<exists>d \<in> set (upper up t). d \<noteq> CHR '' ''"
      by (intro upper_keeps_a_letter) simp_all
    then have "filter (\<lambda>c. c \<noteq> CHR '' '') (upper up t) \<noteq> []"
      by (simp add: filter_empty_conv)
    with len show ne: "create_primitive_text up t sc \<noteq> []" by auto
    from create_3d_text_v2_fallback [OF ne, of p anim ty] ne
    show "\<exists>res. create_3d_text_v2 up [] t p anim ty sc = Inr res
              \<and> v2_main_group res = Some (''fancy_text_'' @ replace_spaces t @ ''_grp'')
              \<and> v2_fallback res = create_primitive_text up t sc
              \<and> v2_all_meshes res = map letter_group (create_primitive_text up t sc)
              \<and> v2_all_meshes res \<noteq> []"
      by auto
  }
next
  fix l assume "l \<in> set (create_primitive_text up t sc)"
  then show "cubes l \<noteq> []"
    unfolding create_primitive_text_def by (rule primitive_loop_cubes)
next
  assume "c \<noteq> CHR '' '' \<and> map_of letter_patterns c = None"
  then show "map (\<lambda>l. length (cubes l)) (primitive_loop sc x [c]) = [1]"
    by (simp add: Let_def dict_get_def question_mark_pattern [unfolded dict_get_def])
qed

theorem primitive_fallback_succeeds_witness:
  "map (\<lambda>l. (letter_group l, length (cubes l))) (create_primitive_text latin1_upper ''a ?'' 1)
     = [(''letter_A_grp'', 8), (''letter_?_grp'', 1)]
   \<and> length (create_primitive_text latin1_upper ''a ?'' 1) = 2
   \<and> map_sum id (\<lambda>res. (v2_main_group res, v2_all_meshes res))
        (create_3d_text_v2 latin1_upper [] ''a ?'' ''ocean'' False ''wave'' 1)
     = Inr (Some ''fancy_text_a_?_grp'', [''letter_A_grp'', ''letter_?_grp''])"
proof -
  have ev: "map (\<lambda>l. (letter_group l, length (cubes l)))
        (create_primitive_text latin1_upper ''a ?'' 1)
     = [(''letter_A_grp'', 8), (''letter_?_grp'', 1)]"
    by (simp add: create_primitive_text_def upper_def latin1_upper_def ascii_upper_def
          upper_char_def dict_get_def letter_patterns_def Let_def)
  have h: "\<exists>c \<in> set ''a ?''. c \<noteq> CHR '' ''" by simp
  have asc: "\<forall>c \<in> set ''a ?''. latin1_upper c = ascii_upper c"
    by (simp add: latin1_upper_def)
  note th = primitive_fallback_succeeds
    [where up = latin1_upper and t = "''a ?''" and sc = 1 and p = "''ocean''"
       and anim = False and ty = "''wave''"]
  from th [THEN conjunct2, THEN conjunct1, THEN mp, OF asc]
  have len: "length (create_primitive_text latin1_upper ''a ?'' 1) = 2"
    by simp
  from th [THEN conjunct2, THEN conjunct2, THEN conjunct2, THEN conjunct2, THEN mp,
           OF conjI [OF latin1_upper_keeps_a_letter h]]
  obtain res where
    res: "create_3d_text_v2 latin1_upper [] ''a ?'' ''ocean'' False ''wave'' 1 = Inr res"
    and mg: "v2_main_group res = Some (''fancy_text_'' @ replace_spaces ''a ?'' @ ''_grp'')"
    and am: "v2_all_meshes res
              = map letter_group (create_primitive_text latin1_upper ''a ?'' 1)"
    by (elim conjE exE)
  have names: "map letter_group (create_primitive_text latin1_upper ''a ?'' 1)
      = [''letter_A_grp'', ''letter_?_grp'']"
    by (simp add: create_primitive_text_def upper_def latin1_upper_def ascii_upper_def
          upper_char_def dict_get_def letter_patterns_def Let_def)
  from res mg am names ev len show ?thesis by (simp add: replace_spaces_def)
qed

text \<open>
  A text whose upper-cased form is longer than the text: the sharp s alone.  It is one
  character that is not a space, and the fallback makes two letter groups, both for
  \<open>S\<close>.
\<close>

lemma sharp_s_makes_two_groups:
  "upper latin1_upper [CHR 0xDF] = ''SS''
   \<and> map letter_group (create_primitive_text latin1_upper [CHR 0xDF] 1)
       = [''letter_S_grp'', ''letter_S_grp'']"
  by (simp add: create_primitive_text_def upper_def latin1_upper_def
        letter_patterns_def dict_get_def Let_def)

section \<open>Unknown animation types and poses\<close>

text \<open>
  Claim C5, as amended.  An animation type other than "wave", "bounce", "spin" and "pop"
  sets no keyframes at all, in \<open>add_text_animation\<close> and in the animation block of
  fancy\_3d\_text.py alike: the text is built, without animation and without an exception.
  A pose other than "standing", "walking", "wave" and "zombie" builds the character
  \<open>create_character\<close> builds for "standing": arms down and legs standing, for which the
  arm and leg builders rotate nothing.  No exception is raised.
\<close>

theorem unknown_selectors:
  "(ty \<notin> set [''wave'', ''bounce'', ''spin'', ''pop''] \<longrightarrow>
      add_text_animation meshes ty = []
      \<and> (\<exists>res. create_3d_text_v2 up type_meshes t p anim ty sc = Inr res
             \<and> v2_keyframes res = [])
      \<and> (\<exists>res. create_3d_text tc a t p per g gi anim ty sc = Inr res
             \<and> keyframes res = []))
   \<and> (pose \<notin> set [''standing'', ''walking'', ''wave'', ''zombie''] \<longrightarrow>
      create_character rnd ct nm sc pos pose h armor
        = create_character rnd ct nm sc pos ''standing'' h armor
      \<and> (\<exists>m. create_character rnd ct nm sc pos pose h armor = Inr m
             \<and> c_arm_pose m = ''down'' \<and> c_leg_pose m = ''standing''
             \<and> rotations (snd (create_arms host n (c_config m) (c_scale m) (c_y_offset m)
                                  (c_arm_pose m) s)) = rotations s
             \<and> rotations (snd (create_legs host n (c_config m) (c_scale m) (c_y_offset m)
                                  (c_leg_pose m) s)) = rotations s))"
proof (intro conjI impI)
  assume u: "ty \<notin> set [''wave'', ''bounce'', ''spin'', ''pop'']"
  show "add_text_animation meshes ty = []"
    using u by (rule add_text_animation_unknown)
  obtain r2 where r2: "create_3d_text_v2 up type_meshes t p anim ty sc = Inr r2"
    using create_3d_text_v2_total by blast
  from create_3d_text_v2_keyframes [OF r2] add_text_animation_unknown [OF u]
  have "v2_keyframes r2 = []" by auto
  with r2 show "\<exists>res. create_3d_text_v2 up type_meshes t p anim ty sc = Inr res
             \<and> v2_keyframes res = []" by blast
  obtain r1 where r1: "create_3d_text tc a t p per g gi anim ty sc = Inr r1"
    using create_3d_text_total by blast
  from create_3d_text_keyframes [OF r1] letter_animation_unknown [OF u]
  have "keyframes r1 = []" by (auto simp: split_def)
  with r1 show "\<exists>res. create_3d_text tc a t p per g gi anim ty sc = Inr res
             \<and> keyframes res = []" by blast
next
  assume u: "pose \<notin> set [''standing'', ''walking'', ''wave'', ''zombie'']"
  show "create_character rnd ct nm sc pos pose h armor
        = create_character rnd ct nm sc pos ''standing'' h armor"
    using u by (rule create_character_unknown_pose)
  from create_character_pose [of rnd ct nm sc pos pose h armor] u obtain m where
    m: "create_character rnd ct nm sc pos pose h armor = Inr m"
    and ap: "c_arm_pose m = ''down''" and lp: "c_leg_pose m = ''standing''"
    by auto
  from m ap lp standing_rotates_nothing
  show "\<exists>m. create_character rnd ct nm sc pos pose h armor = Inr m
             \<and> c_arm_pose m = ''down'' \<and> c_leg_pose m = ''standing''
             \<and> rotations (snd (create_arms host n (c_config m) (c_scale m) (c_y_offset m)
                                  (c_arm_pose m) s)) = rotations s
             \<and> rotations (snd (create_legs host n (c_config m) (c_scale m) (c_y_offset m)
                                  (c_leg_pose m) s)) = rotations s"
    by auto
qed

theorem unknown_selectors_witness:
  "add_text_animation [''m''] ''zoom'' = []
   \<and> create_character 7 ''alex'' None 1 (0, 0, 0) ''dancing'' None None
       = create_character 7 ''alex'' None 1 (0, 0, 0) ''standing'' None None
   \<and> map_sum id (\<lambda>m. (c_arm_pose m, c_leg_pose m))
        (create_character 7 ''alex'' None 1 (0, 0, 0) ''dancing'' None None)
       = Inr (''down'', ''standing'')"
proof -
  have u1: "''zoom'' \<notin> set [''wave'', ''bounce'', ''spin'', ''pop'']" by simp
  have u2: "''dancing'' \<notin> set [''standing'', ''walking'', ''wave'', ''zombie'']" by simp
  note th = unknown_selectors
    [where ty = "''zoom''" and meshes = "[''m'']" and pose = "''dancing''" and rnd = 7
       and ct = "''alex''" and nm = None and sc = 1 and pos = "(0, 0, 0)" and h = None
       and armor = None]
  from th u1 have a: "add_text_animation [''m''] ''zoom'' = []" by blast
  from th u2 have b: "create_character 7 ''alex'' None 1 (0, 0, 0) ''dancing'' None None
       = create_character 7 ''alex'' None 1 (0, 0, 0) ''standing'' None None" by blast
  from th u2 obtain m where
    "create_character 7 ''alex'' None 1 (0, 0, 0) ''dancing'' None None = Inr m"
    "c_arm_pose m = ''down''" "c_leg_pose m = ''standing''" by blast
  then have c: "map_sum id (\<lambda>m. (c_arm_pose m, c_leg_pose m))
        (create_character 7 ''alex'' None 1 (0, 0, 0) ''dancing'' None None)
       = Inr (''down'', ''standing'')" by simp
  from a b c show ?thesis by blast
qed

text \<open>
  The claim as stated fails for the animation type: an unknown type does not fall back
  to "wave", whose keyframes are not empty.
\<close>

theorem unknown_animation_is_not_wave:
  "add_text_animation [''m''] ''zoom'' = []
   \<and> add_text_animation [''m''] ''wave''
       = [(''m'', ''translateY'', 0, 1), (''m'', ''translateY'', 0.5, 15),
          (''m'', ''translateY'', 0, 30)]
   \<and> letter_animation ''zoom'' 1 0 ''g'' = []
   \<and> length (letter_animation ''wave'' 1 0 ''g'') = 12"
  by (simp add: add_text_animation_def mesh_animation_def letter_animation_def Let_def)

section \<open>Materials are reused by name\<close>




end
